theory Spec2Isabelle
  imports Complex_Main "HOL-Library.Log_Nat" "HOL-Library.AList"
begin

section \<open>JavaScript numbers\<close>

text \<open>
  The server computes with JavaScript numbers: \<^verbatim>\<open>parseFloat\<close>, \<^verbatim>\<open>*\<close>, \<^verbatim>\<open>+\<close>,
  \<^verbatim>\<open>toFixed(2)\<close> and \<^verbatim>\<open>toString()\<close>. A number is an IEEE 754 binary64 value: a
  rational that is representable, NaN, or an infinity. The sign of zero is not kept:
  none of the operations below distinguishes -0 from 0. \<open>fl\<close> rounds a rational to the
  nearest representable value, ties to even, with gradual underflow and overflow to
  infinity.
\<close>

datatype jsnum = Num rat | NaN | PosInf | NegInf

definition pow2 :: "int \<Rightarrow> rat" where
  "pow2 e = (if 0 \<le> e then 2 ^ nat e else 1 / 2 ^ nat (- e))"

definition pow10 :: "int \<Rightarrow> rat" where
  "pow10 e = (if 0 \<le> e then 10 ^ nat e else 1 / 10 ^ nat (- e))"

text \<open>The binary exponent of a positive rational: the \<open>k\<close> with \<open>2^k \<le> q < 2^(k+1)\<close>.\<close>
definition ilog2 :: "rat \<Rightarrow> int" where
  "ilog2 q = (let (a, b) = quotient_of q; k = bitlen a - bitlen b
              in if pow2 k \<le> q then k else k - 1)"

definition round_even :: "rat \<Rightarrow> int" where
  "round_even q = (let f = \<lfloor>q\<rfloor>; d = q - of_int f
     in if d < 1 / 2 then f else if 1 / 2 < d then f + 1 else if even f then f else f + 1)"

definition fl :: "rat \<Rightarrow> jsnum" where
  "fl q = (if q = 0 then Num 0 else
     let a = \<bar>q\<bar>; e = max (ilog2 a) (- 1022); ulp = pow2 (e - 52);
         m = round_even (a / ulp)
     in if 1023 < e \<or> (e = 1023 \<and> m = 2 ^ 53) then (if q < 0 then NegInf else PosInf)
        else Num (if q < 0 then - (of_int m * ulp) else of_int m * ulp))"

fun js_times :: "jsnum \<Rightarrow> jsnum \<Rightarrow> jsnum" where
  "js_times NaN _ = NaN"
| "js_times _ NaN = NaN"
| "js_times (Num a) (Num b) = fl (a * b)"
| "js_times (Num a) PosInf = (if a = 0 then NaN else if 0 < a then PosInf else NegInf)"
| "js_times (Num a) NegInf = (if a = 0 then NaN else if 0 < a then NegInf else PosInf)"
| "js_times PosInf (Num b) = (if b = 0 then NaN else if 0 < b then PosInf else NegInf)"
| "js_times NegInf (Num b) = (if b = 0 then NaN else if 0 < b then NegInf else PosInf)"
| "js_times PosInf PosInf = PosInf"
| "js_times PosInf NegInf = NegInf"
| "js_times NegInf PosInf = NegInf"
| "js_times NegInf NegInf = PosInf"

fun js_plus :: "jsnum \<Rightarrow> jsnum \<Rightarrow> jsnum" where
  "js_plus NaN _ = NaN"
| "js_plus _ NaN = NaN"
| "js_plus (Num a) (Num b) = fl (a + b)"
| "js_plus PosInf NegInf = NaN"
| "js_plus NegInf PosInf = NaN"
| "js_plus PosInf _ = PosInf"
| "js_plus NegInf _ = NegInf"
| "js_plus (Num a) y = y"

definition js_neg :: "jsnum \<Rightarrow> jsnum" where
  "js_neg x = (case x of Num q \<Rightarrow> Num (- q) | NaN \<Rightarrow> NaN | PosInf \<Rightarrow> NegInf | NegInf \<Rightarrow> PosInf)"

text \<open>\<^verbatim>\<open>x > 0\<close> on numbers, and the truthiness of a number (\<^verbatim>\<open>!x\<close> holds for 0 and NaN).\<close>
definition js_positive :: "jsnum \<Rightarrow> bool" where
  "js_positive x = (case x of Num q \<Rightarrow> 0 < q | PosInf \<Rightarrow> True | _ \<Rightarrow> False)"

definition js_truthy :: "jsnum \<Rightarrow> bool" where
  "js_truthy x = (case x of Num q \<Rightarrow> q \<noteq> 0 | NaN \<Rightarrow> False | _ \<Rightarrow> True)"

subsection \<open>parseFloat\<close>

text \<open>
  Strings are ASCII texts. \<^verbatim>\<open>parseFloat\<close> skips leading white space and converts the
  longest prefix that is a decimal literal (optional sign, then \<^verbatim>\<open>Infinity\<close> or digits with
  an optional fraction and an optional exponent); NaN when there is none.
\<close>

definition isDigit :: "char \<Rightarrow> bool" where
  "isDigit c = (48 \<le> (of_char c :: nat) \<and> (of_char c :: nat) \<le> 57)"

definition digitVal :: "char \<Rightarrow> int" where
  "digitVal c = int (of_char c) - 48"

definition digitsVal :: "string \<Rightarrow> int" where
  "digitsVal ds = foldl (\<lambda>n c. 10 * n + digitVal c) 0 ds"

definition isWhiteSpace :: "char \<Rightarrow> bool" where
  "isWhiteSpace c = ((of_char c :: nat) \<in> {9, 10, 11, 12, 13, 32})"

definition startsWith :: "string \<Rightarrow> string \<Rightarrow> bool" where
  "startsWith s p = (take (length p) s = p)"

text \<open>The exponent part: e or E, an optional sign, at least one digit; 0 when the text
  does not go on with a complete exponent.\<close>
definition exponentPart :: "string \<Rightarrow> int" where
  "exponentPart s = (case s of
      [] \<Rightarrow> 0
    | c # r \<Rightarrow> if c \<noteq> CHR ''e'' \<and> c \<noteq> CHR ''E'' then 0 else
        (case r of
           [] \<Rightarrow> 0
         | d # r' \<Rightarrow>
             if d = CHR ''+'' then digitsVal (takeWhile isDigit r')
             else if d = CHR ''-'' then - digitsVal (takeWhile isDigit r')
             else digitsVal (takeWhile isDigit r)))"

definition unsignedLiteral :: "string \<Rightarrow> jsnum option" where
  "unsignedLiteral s =
    (if startsWith s ''Infinity'' then Some PosInf else
     let ip = takeWhile isDigit s; r1 = dropWhile isDigit s;
         dot = (r1 \<noteq> [] \<and> hd r1 = CHR ''.'');
         fp = (if dot then takeWhile isDigit (tl r1) else []);
         r2 = (if dot then dropWhile isDigit (tl r1) else r1)
     in if ip = [] \<and> fp = [] then None
        else Some (fl (of_int (digitsVal (ip @ fp)) * pow10 (exponentPart r2 - int (length fp)))))"

definition parseFloat :: "string \<Rightarrow> jsnum" where
  "parseFloat str =
    (let t = dropWhile isWhiteSpace str;
         neg = (t \<noteq> [] \<and> hd t = CHR ''-'');
         u = (if t \<noteq> [] \<and> (hd t = CHR ''-'' \<or> hd t = CHR ''+'') then tl t else t)
     in case unsignedLiteral u of None \<Rightarrow> NaN | Some x \<Rightarrow> if neg then js_neg x else x)"

text \<open>\<^verbatim>\<open>parseInt\<close> on a non-empty run of decimal digits.\<close>
definition parseInt_digits :: "string \<Rightarrow> jsnum" where
  "parseInt_digits ds = fl (of_int (digitsVal ds))"

subsection \<open>Number to string: toString and toFixed(2)\<close>

fun digits :: "int \<Rightarrow> string" where
  "digits n = (if n < 10 then [char_of (48 + n)] else digits (n div 10) @ [char_of (48 + n mod 10)])"

declare digits.simps [simp del]

definition ilog10 :: "rat \<Rightarrow> int" where
  "ilog10 q = (let (a, b) = quotient_of q; k = int (length (digits a)) - int (length (digits b))
               in if pow10 k \<le> q then k else k - 1)"

text \<open>
  \<^verbatim>\<open>Number::toString\<close> of a positive finite \<open>x\<close> takes the least number \<open>k\<close> of digits
  for which some \<open>s\<close> of \<open>k\<close> digits and some \<open>n\<close> give a decimal \<open>s \<times> 10^(n-k)\<close> that
  converts back to \<open>x\<close>, and among those the one closest to \<open>x\<close>.
\<close>
definition candidates :: "rat \<Rightarrow> int \<Rightarrow> (int \<times> int) list" where
  "candidates x k = [(n, s). n \<leftarrow> [ilog10 x + 1, ilog10 x + 2],
       s \<leftarrow> [\<lfloor>x / pow10 (n - k)\<rfloor>, \<lfloor>x / pow10 (n - k)\<rfloor> + 1],
       10 ^ nat (k - 1) \<le> s \<and> s < 10 ^ nat k \<and> fl (of_int s * pow10 (n - k)) = Num x]"

fun closest :: "rat \<Rightarrow> int \<Rightarrow> (int \<times> int) list \<Rightarrow> (int \<times> int)" where
  "closest x k [] = (0, 0)"
| "closest x k [c] = c"
| "closest x k (c # d # cs) =
     (let b = closest x k (d # cs)
      in if \<bar>of_int (snd c) * pow10 (fst c - k) - x\<bar> \<le> \<bar>of_int (snd b) * pow10 (fst b - k) - x\<bar>
         then c else b)"

fun shortest :: "rat \<Rightarrow> int list \<Rightarrow> (int \<times> int \<times> int)" where
  "shortest x [] = (17, ilog10 x + 1, \<lfloor>x / pow10 (ilog10 x + 1 - 17)\<rfloor>)"
| "shortest x (k # ks) =
     (if candidates x k = [] then shortest x ks else (k, closest x k (candidates x k)))"

definition zeros :: "int \<Rightarrow> string" where
  "zeros n = replicate (nat n) (CHR ''0'')"

definition positiveToString :: "rat \<Rightarrow> string" where
  "positiveToString x =
    (let (k, n, s) = shortest x [1, 2, 3, 4, 5, 6, 7, 8, 9, 10, 11, 12, 13, 14, 15, 16, 17];
         ds = digits s;
         ex = (if 0 \<le> n - 1 then ''+'' else ''-'') @ digits \<bar>n - 1\<bar>
     in if k \<le> n \<and> n \<le> 21 then ds @ zeros (n - k)
        else if 0 < n \<and> n \<le> 21 then take (nat n) ds @ ''.'' @ drop (nat n) ds
        else if - 6 < n \<and> n \<le> 0 then ''0.'' @ zeros (- n) @ ds
        else if k = 1 then ds @ ''e'' @ ex
        else take 1 ds @ ''.'' @ drop 1 ds @ ''e'' @ ex)"

definition numberToString :: "jsnum \<Rightarrow> string" where
  "numberToString x = (case x of
      NaN \<Rightarrow> ''NaN'' | PosInf \<Rightarrow> ''Infinity'' | NegInf \<Rightarrow> ''-Infinity''
    | Num q \<Rightarrow> if q = 0 then ''0''
               else if q < 0 then ''-'' @ positiveToString (- q)
               else positiveToString q)"

text \<open>
  \<^verbatim>\<open>x.toFixed(2)\<close>: for a finite \<open>x\<close> below \<open>10^21\<close> in magnitude, the integer \<open>n\<close> for
  which \<open>n / 100\<close> is nearest to \<open>\<bar>x\<bar>\<close> (the larger \<open>n\<close> on a tie), written with two
  fraction digits, after a minus sign when \<open>x < 0\<close>.
\<close>
definition toFixed_n :: "rat \<Rightarrow> int" where
  "toFixed_n a = \<lfloor>a * 100 + 1 / 2\<rfloor>"

definition fixed2 :: "int \<Rightarrow> string" where
  "fixed2 n = (let m0 = digits n;
                   m = (if length m0 \<le> 2 then replicate (3 - length m0) (CHR ''0'') @ m0 else m0);
                   k = length m
               in take (k - 2) m @ ''.'' @ drop (k - 2) m)"

definition toFixed2 :: "jsnum \<Rightarrow> string" where
  "toFixed2 x = (case x of
      NaN \<Rightarrow> ''NaN'' | PosInf \<Rightarrow> ''Infinity'' | NegInf \<Rightarrow> ''-Infinity''
    | Num q \<Rightarrow>
        let s = (if q < 0 then ''-'' else ''''); a = \<bar>q\<bar>
        in if 10 ^ 21 \<le> a then s @ numberToString (Num a)
           else s @ fixed2 (toFixed_n a))"

section \<open>Data model (shared/schema)\<close>

text \<open>
  A \<^verbatim>\<open>Date\<close> is a time value in milliseconds, or the invalid date that
  \<^verbatim>\<open>new Date(text)\<close> yields for an unparsable text. Identifiers are the integers the
  counters produce. The field \<^verbatim>\<open>id\<close> is written \<open>expense_id\<close>, \<open>user_id\<close> and
  \<open>setting_id\<close>; a nullable column is an \<open>option\<close>.
\<close>

datatype Date = Date int | InvalidDate

record User =
  user_id :: int
  user_email :: string
  user_name :: string
  user_department :: "string option"
  user_role :: string
  user_isActive :: bool
  user_createdAt :: int

record Expense =
  expense_id :: int
  employeeId :: int
  employeeName :: string
  employeeEmail :: string
  department :: "string option"
  amount :: string
  description :: string
  category :: string
  expenseDate :: Date
  submissionDate :: int
  status :: string
  approvedBy :: "int option"
  approvedByName :: "string option"
  approvalDate :: "int option"
  approvalNote :: "string option"
  receiptUrl :: "string option"
  receiptFileName :: "string option"
  emailId :: "string option"
  formSubmissionId :: "string option"
  sheetsRowNumber :: "jsnum option"
  notificationSent :: bool

record SystemSetting =
  setting_id :: int
  setting_key :: string
  setting_value :: string
  setting_updatedAt :: int

record InsertUser =
  iu_email :: string
  iu_name :: string
  iu_department :: "string option"
  iu_role :: "string option"
  iu_isActive :: "bool option"

text \<open>
  \<^verbatim>\<open>InsertExpense\<close>. The route passes \<open>amount\<close> as the number its schema parsed; the
  inbox reader and the sample data pass a text.  \<open>ie_status\<close> and \<open>ie_approvalNote\<close> are
  accepted by the insert schema and not read by \<^verbatim>\<open>MemStorage.createExpense\<close>.
\<close>

datatype amount_in = AmountNumber jsnum | AmountText string

record InsertExpense =
  ie_employeeId :: int
  ie_employeeName :: string
  ie_employeeEmail :: string
  ie_department :: "string option"
  ie_amount :: amount_in
  ie_description :: string
  ie_category :: string
  ie_expenseDate :: Date
  ie_status :: "string option"
  ie_approvalNote :: "string option"
  ie_receiptUrl :: "string option"
  ie_receiptFileName :: "string option"
  ie_emailId :: "string option"
  ie_formSubmissionId :: "string option"
  ie_sheetsRowNumber :: "jsnum option"

text \<open>\<^verbatim>\<open>UpdateExpenseStatus\<close>: the status is the enum \<^verbatim>\<open>"approved" | "rejected"\<close>.\<close>

datatype verdict = Approved | Rejected

fun verdict_text :: "verdict \<Rightarrow> string" where
  "verdict_text Approved = ''approved''"
| "verdict_text Rejected = ''rejected''"

record UpdateExpenseStatus =
  ues_status :: verdict
  ues_approvalNote :: "string option"
  ues_approvedBy :: int
  ues_approvedByName :: string

text \<open>
  \<^verbatim>\<open>Partial<Expense>\<close> as the callers of \<^verbatim>\<open>updateExpense\<close> use it: the sheet service
  passes \<^verbatim>\<open>{ sheetsRowNumber }\<close>, the notification service \<^verbatim>\<open>{ notificationSent }\<close>.
\<close>

record ExpensePatch =
  patch_sheetsRowNumber :: "jsnum option"
  patch_notificationSent :: "bool option"

record InsertSystemSetting =
  is_key :: string
  is_value :: string

section \<open>MemStorage (server/storage.ts)\<close>

text \<open>
  A JavaScript \<^verbatim>\<open>Map\<close> keeps its entries in insertion order; \<^verbatim>\<open>set\<close> on a present key
  replaces the value in place. It is an association list with \<open>AList.update\<close>.
\<close>

definition Map_get :: "('k \<times> 'v) list \<Rightarrow> 'k \<Rightarrow> 'v option" where
  "Map_get m k = map_of m k"

definition Map_set :: "'k \<Rightarrow> 'v \<Rightarrow> ('k \<times> 'v) list \<Rightarrow> ('k \<times> 'v) list" where
  "Map_set k v m = AList.update k v m"

definition Map_values :: "('k \<times> 'v) list \<Rightarrow> 'v list" where
  "Map_values m = map snd m"

record MemStorage =
  users :: "(int \<times> User) list"
  expenses :: "(int \<times> Expense) list"
  settings :: "(string \<times> SystemSetting) list"
  currentUserId :: int
  currentExpenseId :: int
  currentSettingId :: int

definition MemStorage_new :: MemStorage where
  "MemStorage_new = \<lparr>users = [], expenses = [], settings = [],
     currentUserId = 1, currentExpenseId = 1, currentSettingId = 1\<rparr>"

text \<open>\<^verbatim>\<open>x || null\<close> on an optional text and on an optional number.\<close>

definition or_null :: "string option \<Rightarrow> string option" where
  "or_null x = (case x of Some (c # cs) \<Rightarrow> Some (c # cs) | _ \<Rightarrow> None)"

definition num_or_null :: "jsnum option \<Rightarrow> jsnum option" where
  "num_or_null x = (case x of Some n \<Rightarrow> if js_truthy n then Some n else None | None \<Rightarrow> None)"

definition getUser :: "MemStorage \<Rightarrow> int \<Rightarrow> User option" where
  "getUser s i = Map_get (users s) i"

definition getUserByEmail :: "MemStorage \<Rightarrow> string \<Rightarrow> User option" where
  "getUserByEmail s email = find (\<lambda>user. user_email user = email) (Map_values (users s))"

definition createUser :: "int \<Rightarrow> InsertUser \<Rightarrow> MemStorage \<Rightarrow> User \<times> MemStorage" where
  "createUser now insertUser s =
    (let i = currentUserId s;
         user = \<lparr>user_id = i, user_email = iu_email insertUser, user_name = iu_name insertUser,
                 user_department = or_null (iu_department insertUser),
                 user_role = (case or_null (iu_role insertUser) of Some r \<Rightarrow> r | None \<Rightarrow> ''employee''),
                 user_isActive = (case iu_isActive insertUser of Some b \<Rightarrow> b | None \<Rightarrow> True),
                 user_createdAt = now\<rparr>
     in (user, s\<lparr>currentUserId := i + 1, users := Map_set i user (users s)\<rparr>))"

definition getExpense :: "MemStorage \<Rightarrow> int \<Rightarrow> Expense option" where
  "getExpense s i = Map_get (expenses s) i"

text \<open>\<^verbatim>\<open>Array.prototype.sort\<close> is stable; the comparator orders by submission time,
  latest first.\<close>

definition sortBySubmissionDateDesc :: "Expense list \<Rightarrow> Expense list" where
  "sortBySubmissionDateDesc xs = sort_key (\<lambda>e. - submissionDate e) xs"

definition getAllExpenses :: "MemStorage \<Rightarrow> Expense list" where
  "getAllExpenses s = sortBySubmissionDateDesc (Map_values (expenses s))"

definition getExpensesByStatus :: "MemStorage \<Rightarrow> string \<Rightarrow> Expense list" where
  "getExpensesByStatus s st =
     sortBySubmissionDateDesc (filter (\<lambda>expense. status expense = st) (Map_values (expenses s)))"

definition getExpensesByEmployee :: "MemStorage \<Rightarrow> int \<Rightarrow> Expense list" where
  "getExpensesByEmployee s i =
     sortBySubmissionDateDesc (filter (\<lambda>expense. employeeId expense = i) (Map_values (expenses s)))"

definition amountToString :: "amount_in \<Rightarrow> string" where
  "amountToString a = (case a of AmountNumber x \<Rightarrow> numberToString x | AmountText t \<Rightarrow> t)"

definition createExpense :: "int \<Rightarrow> InsertExpense \<Rightarrow> MemStorage \<Rightarrow> Expense \<times> MemStorage" where
  "createExpense now insertExpense s =
    (let i = currentExpenseId s;
         expense = \<lparr>expense_id = i,
           employeeId = ie_employeeId insertExpense,
           employeeName = ie_employeeName insertExpense,
           employeeEmail = ie_employeeEmail insertExpense,
           department = or_null (ie_department insertExpense),
           amount = amountToString (ie_amount insertExpense),
           description = ie_description insertExpense,
           category = ie_category insertExpense,
           expenseDate = ie_expenseDate insertExpense,
           submissionDate = now,
           status = ''pending'',
           approvedBy = None,
           approvedByName = None,
           approvalDate = None,
           approvalNote = None,
           receiptUrl = or_null (ie_receiptUrl insertExpense),
           receiptFileName = or_null (ie_receiptFileName insertExpense),
           emailId = or_null (ie_emailId insertExpense),
           formSubmissionId = or_null (ie_formSubmissionId insertExpense),
           sheetsRowNumber = num_or_null (ie_sheetsRowNumber insertExpense),
           notificationSent = False\<rparr>
     in (expense, s\<lparr>currentExpenseId := i + 1, expenses := Map_set i expense (expenses s)\<rparr>))"

definition updateExpenseStatus ::
  "int \<Rightarrow> int \<Rightarrow> UpdateExpenseStatus \<Rightarrow> MemStorage \<Rightarrow> Expense option \<times> MemStorage" where
  "updateExpenseStatus now i updates s =
    (case Map_get (expenses s) i of
       None \<Rightarrow> (None, s)
     | Some expense \<Rightarrow>
         let updatedExpense = expense\<lparr>
               status := verdict_text (ues_status updates),
               approvalNote := or_null (ues_approvalNote updates),
               approvedBy := Some (ues_approvedBy updates),
               approvedByName := Some (ues_approvedByName updates),
               approvalDate := Some now,
               notificationSent := False\<rparr>
         in (Some updatedExpense, s\<lparr>expenses := Map_set i updatedExpense (expenses s)\<rparr>))"

definition applyPatch :: "ExpensePatch \<Rightarrow> Expense \<Rightarrow> Expense" where
  "applyPatch updates expense =
    (let e1 = (case patch_sheetsRowNumber updates of
                 Some n \<Rightarrow> expense\<lparr>sheetsRowNumber := Some n\<rparr> | None \<Rightarrow> expense)
     in case patch_notificationSent updates of
          Some b \<Rightarrow> e1\<lparr>notificationSent := b\<rparr> | None \<Rightarrow> e1)"

definition updateExpense :: "int \<Rightarrow> ExpensePatch \<Rightarrow> MemStorage \<Rightarrow> Expense option \<times> MemStorage" where
  "updateExpense i updates s =
    (case Map_get (expenses s) i of
       None \<Rightarrow> (None, s)
     | Some expense \<Rightarrow>
         let updatedExpense = applyPatch updates expense
         in (Some updatedExpense, s\<lparr>expenses := Map_set i updatedExpense (expenses s)\<rparr>))"

definition getSetting :: "MemStorage \<Rightarrow> string \<Rightarrow> SystemSetting option" where
  "getSetting s k = Map_get (settings s) k"

definition setSetting :: "int \<Rightarrow> InsertSystemSetting \<Rightarrow> MemStorage \<Rightarrow> SystemSetting \<times> MemStorage" where
  "setSetting now setting s =
    (case Map_get (settings s) (is_key setting) of
       Some existing \<Rightarrow>
         let updated = existing\<lparr>setting_value := is_value setting, setting_updatedAt := now\<rparr>
         in (updated, s\<lparr>settings := Map_set (is_key setting) updated (settings s)\<rparr>)
     | None \<Rightarrow>
         let i = currentSettingId s;
             newSetting = \<lparr>setting_id = i, setting_key = is_key setting,
                            setting_value = is_value setting, setting_updatedAt = now\<rparr>
         in (newSetting, s\<lparr>currentSettingId := i + 1,
                              settings := Map_set (is_key setting) newSetting (settings s)\<rparr>))"

record ExpenseStats =
  pendingCount :: nat
  approvedCount :: nat
  rejectedCount :: nat
  totalAmount :: jsnum

definition getExpenseStats :: "MemStorage \<Rightarrow> ExpenseStats" where
  "getExpenseStats s =
    (let allExpenses = Map_values (expenses s)
     in \<lparr>pendingCount = length (filter (\<lambda>e. status e = ''pending'') allExpenses),
         approvedCount = length (filter (\<lambda>e. status e = ''approved'') allExpenses),
         rejectedCount = length (filter (\<lambda>e. status e = ''rejected'') allExpenses),
         totalAmount = foldl (\<lambda>sum e. js_plus sum (parseFloat (amount e))) (Num 0)
                         (filter (\<lambda>e. status e = ''approved'') allExpenses)\<rparr>)"

text \<open>The constructor's \<^verbatim>\<open>initializeDefaultData\<close>: four users, three settings and three
  sample expenses.\<close>

definition initializeDefaultData :: "int \<Rightarrow> MemStorage \<Rightarrow> MemStorage" where
  "initializeDefaultData now s0 =
    (let s1 = snd (createUser now \<lparr>iu_email = ''admin@agency.com'', iu_name = ''Admin User'',
                 iu_department = Some ''Administration'', iu_role = Some ''admin'',
                 iu_isActive = Some True\<rparr> s0);
         s2 = snd (createUser now \<lparr>iu_email = ''manager@agency.com'', iu_name = ''Finance Manager'',
                 iu_department = Some ''Finance'', iu_role = Some ''approver'',
                 iu_isActive = Some True\<rparr> s1);
         s3 = snd (createUser now \<lparr>iu_email = ''sarah@agency.com'', iu_name = ''Sarah Miller'',
                 iu_department = Some ''Marketing'', iu_role = Some ''employee'',
                 iu_isActive = Some True\<rparr> s2);
         s4 = snd (createUser now \<lparr>iu_email = ''michael@agency.com'', iu_name = ''Michael Johnson'',
                 iu_department = Some ''Engineering'', iu_role = Some ''employee'',
                 iu_isActive = Some True\<rparr> s3);
         s5 = snd (setSetting now \<lparr>is_key = ''gmail_enabled'', is_value = ''true''\<rparr> s4);
         s6 = snd (setSetting now \<lparr>is_key = ''sheets_enabled'', is_value = ''true''\<rparr> s5);
         s7 = snd (setSetting now \<lparr>is_key = ''notifications_enabled'', is_value = ''true''\<rparr> s6);
         s8 = snd (createExpense now \<lparr>ie_employeeId = 3, ie_employeeName = ''Sarah Miller'',
                 ie_employeeEmail = ''sarah@agency.com'', ie_department = Some ''Marketing'',
                 ie_amount = AmountText ''156.50'', ie_description = ''Team lunch at The Bistro'',
                 ie_category = ''Meals & Entertainment'', ie_expenseDate = Date 1750636800000,
                 ie_status = None, ie_approvalNote = None, ie_receiptUrl = None,
                 ie_receiptFileName = None, ie_emailId = None, ie_formSubmissionId = None,
                 ie_sheetsRowNumber = None\<rparr> s7);
         s9 = snd (createExpense now \<lparr>ie_employeeId = 4, ie_employeeName = ''Michael Johnson'',
                 ie_employeeEmail = ''michael@agency.com'', ie_department = Some ''Engineering'',
                 ie_amount = AmountText ''89.99'', ie_description = ''Uber to client meeting'',
                 ie_category = ''Transportation'', ie_expenseDate = Date 1750550400000,
                 ie_status = None, ie_approvalNote = None, ie_receiptUrl = None,
                 ie_receiptFileName = None, ie_emailId = None, ie_formSubmissionId = None,
                 ie_sheetsRowNumber = None\<rparr> s8)
     in snd (createExpense now \<lparr>ie_employeeId = 3, ie_employeeName = ''Sarah Miller'',
                 ie_employeeEmail = ''sarah@agency.com'', ie_department = Some ''Marketing'',
                 ie_amount = AmountText ''299.00'',
                 ie_description = ''Software license for design tools'',
                 ie_category = ''Software'', ie_expenseDate = Date 1750464000000,
                 ie_status = None, ie_approvalNote = None, ie_receiptUrl = None,
                 ie_receiptFileName = None, ie_emailId = None, ie_formSubmissionId = None,
                 ie_sheetsRowNumber = None\<rparr> s9))"

text \<open>The stores the program can build: the empty maps of the constructor, changed by the
  storage operations.\<close>

inductive reachable :: "MemStorage \<Rightarrow> bool" where
  reach_new: "reachable MemStorage_new"
| reach_createUser: "reachable s \<Longrightarrow> reachable (snd (createUser now insertUser s))"
| reach_createExpense: "reachable s \<Longrightarrow> reachable (snd (createExpense now insertExpense s))"
| reach_updateExpenseStatus:
    "reachable s \<Longrightarrow> reachable (snd (updateExpenseStatus now i updates s))"
| reach_updateExpense: "reachable s \<Longrightarrow> reachable (snd (updateExpense i patch s))"
| reach_setSetting: "reachable s \<Longrightarrow> reachable (snd (setSetting now setting s))"

definition store_inv :: "MemStorage \<Rightarrow> bool" where
  "store_inv s =
    (distinct (map fst (expenses s)) \<and>
     (\<forall>(k, e) \<in> set (expenses s).
        expense_id e = k \<and> k < currentExpenseId s \<and>
        (status e = ''pending'' \<or> status e = ''approved'' \<or> status e = ''rejected'')))"

section \<open>External services\<close>

text \<open>
  The Sheets, Gmail and Drive clients are outside the program. A call either throws or
  returns; what it does is given by a \<open>world\<close>, which sees the calls made so far. For an
  append the returned text is the \<^verbatim>\<open>updatedRange\<close> of the response, for an upload the
  link of the stored file. The mails and sheet rows are renderings of the expense and
  are represented by it. Every call is recorded with its outcome.
\<close>

datatype mail = SubmissionMail Expense | ApprovalMail Expense

datatype call =
    SheetsAppend Expense
  | SheetsUpdate Expense
  | GmailSend string mail
  | DriveUpload string string string

datatype outcome = Throws | Returns "string option"

type_synonym call_log = "(call \<times> outcome) list"

type_synonym world = "call_log \<Rightarrow> call \<Rightarrow> outcome"

record Sys =
  storage :: MemStorage
  calls :: call_log

datatype error = RangeError | ExternalError | ZodError "string list"

definition perform :: "world \<Rightarrow> call \<Rightarrow> Sys \<Rightarrow> outcome \<times> Sys" where
  "perform w c sys = (let r = w (calls sys) c in (r, sys\<lparr>calls := calls sys @ [(c, r)]\<rparr>))"

definition opt_truthy :: "jsnum option \<Rightarrow> bool" where
  "opt_truthy x = (case x of None \<Rightarrow> False | Some n \<Rightarrow> js_truthy n)"

definition str_truthy :: "string option \<Rightarrow> bool" where
  "str_truthy x = (case x of Some (c # cs) \<Rightarrow> True | _ \<Rightarrow> False)"

subsection \<open>GmailService.sendNotificationEmail, DriveService.uploadReceipt\<close>

definition sendNotificationEmail :: "world \<Rightarrow> string \<Rightarrow> mail \<Rightarrow> Sys \<Rightarrow> (error + unit) \<times> Sys" where
  "sendNotificationEmail w to m sys =
    (case perform w (GmailSend to m) sys of
       (Throws, sys1) \<Rightarrow> (Inl ExternalError, sys1)
     | (Returns _, sys1) \<Rightarrow> (Inr (), sys1))"

definition uploadReceipt ::
  "world \<Rightarrow> string \<Rightarrow> string \<Rightarrow> string \<Rightarrow> Sys \<Rightarrow> (error + string) \<times> Sys" where
  "uploadReceipt w fileName mimeType buffer sys =
    (case perform w (DriveUpload fileName mimeType buffer) sys of
       (Throws, sys1) \<Rightarrow> (Inl ExternalError, sys1)
     | (Returns link, sys1) \<Rightarrow> (Inr (case link of Some l \<Rightarrow> l | None \<Rightarrow> []), sys1))"

subsection \<open>SheetsService\<close>

text \<open>The row number is read off the end of the range: \<^verbatim>\<open>/(\d+)$/\<close>, then
  \<^verbatim>\<open>parseInt\<close>; 0 when the response has no range or the range does not end in a digit.\<close>

definition rowNumberOf :: "string option \<Rightarrow> jsnum" where
  "rowNumberOf updatedRange =
    (case updatedRange of
       None \<Rightarrow> Num 0
     | Some r \<Rightarrow> (case rev (takeWhile isDigit (rev r)) of
                    [] \<Rightarrow> Num 0
                  | d # ds \<Rightarrow> parseInt_digits (d # ds)))"

text \<open>\<^verbatim>\<open>toISOString\<close> throws a RangeError on an invalid date; the \<^verbatim>\<open>catch\<close> of
  \<^verbatim>\<open>addExpense\<close> logs and throws again.\<close>

definition addExpense :: "world \<Rightarrow> Expense \<Rightarrow> Sys \<Rightarrow> (error + jsnum) \<times> Sys" where
  "addExpense w expense sys =
    (if expenseDate expense = InvalidDate then (Inl RangeError, sys)
     else case perform w (SheetsAppend expense) sys of
       (Throws, sys1) \<Rightarrow> (Inl ExternalError, sys1)
     | (Returns updatedRange, sys1) \<Rightarrow>
         let rowNumber = rowNumberOf updatedRange
         in if js_positive rowNumber
            then (Inr rowNumber,
                  sys1\<lparr>storage := snd (updateExpense (expense_id expense)
                     \<lparr>patch_sheetsRowNumber = Some rowNumber, patch_notificationSent = None\<rparr>
                     (storage sys1))\<rparr>)
            else (Inr rowNumber, sys1))"

definition sheets_updateExpenseStatus :: "world \<Rightarrow> Expense \<Rightarrow> Sys \<Rightarrow> (error + unit) \<times> Sys" where
  "sheets_updateExpenseStatus w expense sys =
    (if \<not> opt_truthy (sheetsRowNumber expense) then (Inr (), sys)
     else case perform w (SheetsUpdate expense) sys of
       (Throws, sys1) \<Rightarrow> (Inl ExternalError, sys1)
     | (Returns _, sys1) \<Rightarrow> (Inr (), sys1))"

fun syncLoop :: "world \<Rightarrow> Expense list \<Rightarrow> Sys \<Rightarrow> (error + unit) \<times> Sys" where
  "syncLoop w [] sys = (Inr (), sys)"
| "syncLoop w (expense # rest) sys =
    (if \<not> opt_truthy (sheetsRowNumber expense)
     then (case addExpense w expense sys of
             (Inl err, sys1) \<Rightarrow> (Inl err, sys1)
           | (Inr _, sys1) \<Rightarrow> syncLoop w rest sys1)
     else syncLoop w rest sys)"

definition syncExpensesToSheet :: "world \<Rightarrow> Sys \<Rightarrow> (error + unit) \<times> Sys" where
  "syncExpensesToSheet w sys = syncLoop w (getAllExpenses (storage sys)) sys"

subsection \<open>NotificationService\<close>

definition getApprovers :: "(string \<times> string) list" where
  "getApprovers = [(''manager@agency.com'', ''Finance Manager''), (''admin@agency.com'', ''Admin User'')]"

fun sendToApprovers ::
  "world \<Rightarrow> (string \<times> string) list \<Rightarrow> Expense \<Rightarrow> Sys \<Rightarrow> (error + unit) \<times> Sys" where
  "sendToApprovers w [] expense sys = (Inr (), sys)"
| "sendToApprovers w (approver # rest) expense sys =
    (case sendNotificationEmail w (fst approver) (SubmissionMail expense) sys of
       (Inl err, sys1) \<Rightarrow> (Inl err, sys1)
     | (Inr _, sys1) \<Rightarrow> sendToApprovers w rest expense sys1)"

text \<open>Both notification functions catch whatever their body throws (the mail body
  needs \<^verbatim>\<open>expenseDate.toISOString()\<close>) and log it.\<close>

definition sendExpenseSubmissionNotification ::
  "world \<Rightarrow> Expense \<Rightarrow> Sys \<Rightarrow> (error + unit) \<times> Sys" where
  "sendExpenseSubmissionNotification w expense sys =
    (if getApprovers = [] then (Inr (), sys)
     else if expenseDate expense = InvalidDate then (Inr (), sys)
     else (Inr (), snd (sendToApprovers w getApprovers expense sys)))"

definition sendApprovalNotification :: "world \<Rightarrow> Expense \<Rightarrow> Sys \<Rightarrow> (error + unit) \<times> Sys" where
  "sendApprovalNotification w expense sys =
    (if expenseDate expense = InvalidDate then (Inr (), sys)
     else case sendNotificationEmail w (employeeEmail expense) (ApprovalMail expense) sys of
       (Inl err, sys1) \<Rightarrow> (Inr (), sys1)
     | (Inr _, sys1) \<Rightarrow>
         (Inr (), sys1\<lparr>storage := snd (updateExpense (expense_id expense)
            \<lparr>patch_sheetsRowNumber = None, patch_notificationSent = Some True\<rparr>
            (storage sys1))\<rparr>))"

fun notifyAll :: "world \<Rightarrow> Expense list \<Rightarrow> Sys \<Rightarrow> Sys" where
  "notifyAll w [] sys = sys"
| "notifyAll w (expense # rest) sys = notifyAll w rest (snd (sendApprovalNotification w expense sys))"

definition processNotificationQueue :: "world \<Rightarrow> Sys \<Rightarrow> Sys" where
  "processNotificationQueue w sys =
     notifyAll w (filter (\<lambda>expense. \<not> notificationSent expense \<and> status expense \<noteq> ''pending'')
                    (getAllExpenses (storage sys))) sys"

section \<open>Routes (server/routes.ts)\<close>

text \<open>
  The routes go through the object \<^verbatim>\<open>storage\<close>. One version of the storage module
  exports \<^verbatim>\<open>new MemStorage()\<close>, the other \<^verbatim>\<open>new DatabaseStorage()\<close>. The two
  classes read a user, an expense and a setting and update an expense alike; they
  differ in \<^verbatim>\<open>createExpense\<close>. The handlers below have \<^verbatim>\<open>MemStorage\<close> behind
  them; \<open>post_expenses_db\<close>, in the last section, is the submission with
  \<^verbatim>\<open>DatabaseStorage.createExpense\<close>.

  The handlers run after \<^verbatim>\<open>requireAuth\<close>, which has put the session's user id into
  the request. A request body is a record of the JSON fields a handler reads, each
  absent or a text; \<open>body_expenseDate\<close> stands for the submitted text by the date
  \<^verbatim>\<open>new Date(text)\<close> makes of it. A response is a status code and a JSON payload.
\<close>

datatype response =
    JsonExpense nat Expense
  | JsonMessage nat string
  | JsonValidation nat "string list"
  | JsonRate nat jsnum

record StatusBody =
  sb_status :: "string option"
  sb_approvalNote :: "string option"

record ExpenseBody =
  body_amount :: "string option"
  body_mileageDistance :: "string option"
  body_mileageRate :: "string option"
  body_description :: "string option"
  body_category :: "string option"
  body_expenseDate :: "Date option"
  body_receiptUrl :: "string option"
  body_receiptFileData :: "string option"
  body_receiptFileType :: "string option"
  body_receiptFileName :: "string option"
  body_status :: "string option"
  body_approvalNote :: "string option"
  body_emailId :: "string option"
  body_formSubmissionId :: "string option"
  body_sheetsRowNumber :: "jsnum option"

subsection \<open>The schemas\<close>

definition updateExpenseStatusSchema_parse ::
  "StatusBody \<Rightarrow> int \<Rightarrow> string \<Rightarrow> error + UpdateExpenseStatus" where
  "updateExpenseStatusSchema_parse body by byName =
    (case sb_status body of
       None \<Rightarrow> Inl (ZodError [''status''])
     | Some st \<Rightarrow>
         if st = ''approved''
         then Inr \<lparr>ues_status = Approved, ues_approvalNote = sb_approvalNote body,
                   ues_approvedBy = by, ues_approvedByName = byName\<rparr>
         else if st = ''rejected''
         then Inr \<lparr>ues_status = Rejected, ues_approvalNote = sb_approvalNote body,
                   ues_approvedBy = by, ues_approvedByName = byName\<rparr>
         else Inl (ZodError [''status'']))"

text \<open>The schema of an integer column takes the whole numbers of 32 bits.\<close>

definition is_int4 :: "jsnum \<Rightarrow> bool" where
  "is_int4 x = (case x of
      Num q \<Rightarrow> q = of_int \<lfloor>q\<rfloor> \<and> - 2147483648 \<le> q \<and> q \<le> 2147483647
    | _ \<Rightarrow> False)"

text \<open>The fields of the insert schema that a request can get wrong: the required texts
  and the integer column.\<close>

definition insertExpenseSchema_issues :: "ExpenseBody \<Rightarrow> string option \<Rightarrow> string list" where
  "insertExpenseSchema_issues body amount' =
     (if amount' = None then [''amount''] else []) @
     (if body_description body = None then [''description''] else []) @
     (if body_category body = None then [''category''] else []) @
     (if body_expenseDate body = None then [''expenseDate''] else []) @
     (case body_sheetsRowNumber body of
        None \<Rightarrow> [] | Some n \<Rightarrow> if is_int4 n then [] else [''sheetsRowNumber''])"

definition insertExpenseSchema_parse ::
  "ExpenseBody \<Rightarrow> string option \<Rightarrow> User \<Rightarrow> string \<Rightarrow> error + InsertExpense" where
  "insertExpenseSchema_parse body amount' user receiptUrl' =
    (case (amount', body_description body, body_category body, body_expenseDate body) of
       (Some a, Some d, Some c, Some dt) \<Rightarrow>
         if insertExpenseSchema_issues body amount' \<noteq> []
         then Inl (ZodError (insertExpenseSchema_issues body amount'))
         else Inr \<lparr>ie_employeeId = user_id user,
                   ie_employeeName = user_name user,
                   ie_employeeEmail = user_email user,
                   ie_department = user_department user,
                   ie_amount = AmountNumber (parseFloat a),
                   ie_description = d,
                   ie_category = c,
                   ie_expenseDate = dt,
                   ie_status = body_status body,
                   ie_approvalNote = body_approvalNote body,
                   ie_receiptUrl = Some receiptUrl',
                   ie_receiptFileName = body_receiptFileName body,
                   ie_emailId = body_emailId body,
                   ie_formSubmissionId = body_formSubmissionId body,
                   ie_sheetsRowNumber = body_sheetsRowNumber body\<rparr>
     | _ \<Rightarrow> Inl (ZodError (insertExpenseSchema_issues body amount')))"

subsection \<open>POST /api/expenses\<close>

text \<open>The mileage branch: \<^verbatim>\<open>(distance * rate).toFixed(2)\<close> when the body has a distance
  and a rate, the body's amount otherwise.\<close>

definition calculateAmount :: "jsnum \<Rightarrow> jsnum \<Rightarrow> string" where
  "calculateAmount distance rate = toFixed2 (js_times distance rate)"

definition calculatedAmount :: "ExpenseBody \<Rightarrow> string option" where
  "calculatedAmount body =
    (case (body_mileageDistance body, body_mileageRate body) of
       (Some (c # cs), Some (d # ds)) \<Rightarrow>
          Some (calculateAmount (parseFloat (c # cs)) (parseFloat (d # ds)))
     | _ \<Rightarrow> body_amount body)"

definition receiptUrlOf :: "world \<Rightarrow> ExpenseBody \<Rightarrow> Sys \<Rightarrow> (error + string) \<times> Sys" where
  "receiptUrlOf w body sys =
    (case (body_receiptFileData body, body_receiptFileType body, body_receiptFileName body) of
       (Some (a # as), Some (b # bs), Some (c # cs)) \<Rightarrow> uploadReceipt w (c # cs) (b # bs) (a # as) sys
     | _ \<Rightarrow> (Inr (case or_null (body_receiptUrl body) of Some u \<Rightarrow> u | None \<Rightarrow> []), sys))"

definition post_expenses :: "world \<Rightarrow> int \<Rightarrow> int \<Rightarrow> ExpenseBody \<Rightarrow> Sys \<Rightarrow> response \<times> Sys" where
  "post_expenses w now userId body sys =
    (case getUser (storage sys) userId of
       None \<Rightarrow> (JsonMessage 404 ''User not found'', sys)
     | Some user \<Rightarrow>
        (case receiptUrlOf w body sys of
           (Inl err, sys0) \<Rightarrow> (JsonMessage 500 ''Failed to create expense'', sys0)
         | (Inr receiptUrl', sys0) \<Rightarrow>
            (case insertExpenseSchema_parse body (calculatedAmount body) user receiptUrl' of
               Inl (ZodError errors) \<Rightarrow> (JsonValidation 400 errors, sys0)
             | Inl _ \<Rightarrow> (JsonMessage 500 ''Failed to create expense'', sys0)
             | Inr expenseData \<Rightarrow>
                 let expense = fst (createExpense now expenseData (storage sys0));
                     sys1 = sys0\<lparr>storage := snd (createExpense now expenseData (storage sys0))\<rparr>;
                     sys2 = snd (addExpense w expense sys1);
                     sys3 = snd (sendExpenseSubmissionNotification w expense sys2)
                 in (JsonExpense 201 expense, sys3))))"

subsection \<open>PATCH /api/expenses/:id/status\<close>

definition patch_expense_status ::
  "world \<Rightarrow> int \<Rightarrow> int \<Rightarrow> int \<Rightarrow> StatusBody \<Rightarrow> Sys \<Rightarrow> response \<times> Sys" where
  "patch_expense_status w now userId i body sys =
    (case getUser (storage sys) userId of
       None \<Rightarrow> (JsonMessage 403 ''Insufficient permissions'', sys)
     | Some user \<Rightarrow>
        if user_role user \<noteq> ''approver'' \<and> user_role user \<noteq> ''admin''
        then (JsonMessage 403 ''Insufficient permissions'', sys)
        else (case updateExpenseStatusSchema_parse body (user_id user) (user_name user) of
                Inl (ZodError errors) \<Rightarrow> (JsonValidation 400 errors, sys)
              | Inl _ \<Rightarrow> (JsonMessage 500 ''Failed to update expense status'', sys)
              | Inr updateData \<Rightarrow>
                 (case fst (updateExpenseStatus now i updateData (storage sys)) of
                    None \<Rightarrow> (JsonMessage 404 ''Expense not found'', sys)
                  | Some expense \<Rightarrow>
                      let sys1 = sys\<lparr>storage := snd (updateExpenseStatus now i updateData (storage sys))\<rparr>;
                          sys2 = snd (sheets_updateExpenseStatus w expense sys1);
                          sys3 = snd (sendApprovalNotification w expense sys2)
                      in (JsonExpense 200 expense, sys3))))"

subsection \<open>GET /api/mileage-rate, POST /api/admin/sync-sheets\<close>

definition get_mileage_rate :: "MemStorage \<Rightarrow> response" where
  "get_mileage_rate s =
    (case getSetting s ''mileage_rate'' of
       Some rateSetting \<Rightarrow> JsonRate 200 (parseFloat (setting_value rateSetting))
     | None \<Rightarrow> JsonRate 200 (fl (68 / 100)))"

definition post_admin_sync_sheets :: "world \<Rightarrow> int \<Rightarrow> Sys \<Rightarrow> response \<times> Sys" where
  "post_admin_sync_sheets w userId sys =
    (case getUser (storage sys) userId of
       None \<Rightarrow> (JsonMessage 403 ''Admin access required'', sys)
     | Some user \<Rightarrow>
        if user_role user \<noteq> ''admin'' then (JsonMessage 403 ''Admin access required'', sys)
        else (case syncExpensesToSheet w sys of
                (Inl err, sys1) \<Rightarrow> (JsonMessage 500 ''Sheets sync failed'', sys1)
              | (Inr _, sys1) \<Rightarrow> (JsonMessage 200 ''Sheets sync completed'', sys1)))"

section \<open>DatabaseStorage.createExpense\<close>

text \<open>
  \<^verbatim>\<open>DatabaseStorage.createExpense\<close> inserts the record it is given into the table
  \<^verbatim>\<open>expenses\<close> and returns the row. The table is the map of expenses and the serial
  of its \<^verbatim>\<open>id\<close> column is the counter. A column that the record has keeps the value
  of the record: so do \<^verbatim>\<open>status\<close>, \<^verbatim>\<open>approvalNote\<close> and \<^verbatim>\<open>sheetsRowNumber\<close>,
  which the insert schema lets through. A column that the record lacks takes the
  default of the table: the next serial for \<^verbatim>\<open>id\<close>, the time of the insert for
  \<^verbatim>\<open>submissionDate\<close>, pending for \<^verbatim>\<open>status\<close>, false for \<^verbatim>\<open>notificationSent\<close>
  and null for the nullable columns; \<^verbatim>\<open>approvedBy\<close>, \<^verbatim>\<open>approvedByName\<close> and
  \<^verbatim>\<open>approvalDate\<close> are not in the insert schema. The timestamp column is written
  with \<^verbatim>\<open>toISOString\<close>, which throws on an invalid date.

  The column \<^verbatim>\<open>amount\<close> is \<^verbatim>\<open>numeric(10,2)\<close>. What the database makes of the number
  sent is the parameter \<open>numeric\<close>: the text it gives back, or nothing when it refuses
  the value and the insert throws. A text amount is the \<^verbatim>\<open>toString\<close> of a number (the
  inbox reader), so it reaches the database as that number does.
\<close>

definition amountNumber :: "amount_in \<Rightarrow> jsnum" where
  "amountNumber a = (case a of AmountNumber x \<Rightarrow> x | AmountText t \<Rightarrow> parseFloat t)"

definition DatabaseStorage_createExpense ::
  "(jsnum \<Rightarrow> string option) \<Rightarrow> int \<Rightarrow> InsertExpense \<Rightarrow> MemStorage
     \<Rightarrow> error + Expense \<times> MemStorage" where
  "DatabaseStorage_createExpense numeric now insertExpense s =
    (if ie_expenseDate insertExpense = InvalidDate then Inl RangeError
     else case numeric (amountNumber (ie_amount insertExpense)) of
       None \<Rightarrow> Inl ExternalError
     | Some amountText \<Rightarrow>
         let i = currentExpenseId s;
             expense = \<lparr>expense_id = i,
               employeeId = ie_employeeId insertExpense,
               employeeName = ie_employeeName insertExpense,
               employeeEmail = ie_employeeEmail insertExpense,
               department = ie_department insertExpense,
               amount = amountText,
               description = ie_description insertExpense,
               category = ie_category insertExpense,
               expenseDate = ie_expenseDate insertExpense,
               submissionDate = now,
               status = (case ie_status insertExpense of Some st \<Rightarrow> st | None \<Rightarrow> ''pending''),
               approvedBy = None,
               approvedByName = None,
               approvalDate = None,
               approvalNote = ie_approvalNote insertExpense,
               receiptUrl = ie_receiptUrl insertExpense,
               receiptFileName = ie_receiptFileName insertExpense,
               emailId = ie_emailId insertExpense,
               formSubmissionId = ie_formSubmissionId insertExpense,
               sheetsRowNumber = ie_sheetsRowNumber insertExpense,
               notificationSent = False\<rparr>
         in Inr (expense, s\<lparr>currentExpenseId := i + 1, expenses := Map_set i expense (expenses s)\<rparr>))"

text \<open>\<^verbatim>\<open>POST /api/expenses\<close> with \<^verbatim>\<open>DatabaseStorage.createExpense\<close>: an insert that
  throws is answered with 500.\<close>

definition post_expenses_db ::
  "(jsnum \<Rightarrow> string option) \<Rightarrow> world \<Rightarrow> int \<Rightarrow> int \<Rightarrow> ExpenseBody \<Rightarrow> Sys
     \<Rightarrow> response \<times> Sys" where
  "post_expenses_db numeric w now userId body sys =
    (case getUser (storage sys) userId of
       None \<Rightarrow> (JsonMessage 404 ''User not found'', sys)
     | Some user \<Rightarrow>
        (case receiptUrlOf w body sys of
           (Inl err, sys0) \<Rightarrow> (JsonMessage 500 ''Failed to create expense'', sys0)
         | (Inr receiptUrl', sys0) \<Rightarrow>
            (case insertExpenseSchema_parse body (calculatedAmount body) user receiptUrl' of
               Inl (ZodError errors) \<Rightarrow> (JsonValidation 400 errors, sys0)
             | Inl _ \<Rightarrow> (JsonMessage 500 ''Failed to create expense'', sys0)
             | Inr expenseData \<Rightarrow>
                (case DatabaseStorage_createExpense numeric now expenseData (storage sys0) of
                   Inl err \<Rightarrow> (JsonMessage 500 ''Failed to create expense'', sys0)
                 | Inr (expense, s1) \<Rightarrow>
                     let sys1 = sys0\<lparr>storage := s1\<rparr>;
                         sys2 = snd (addExpense w expense sys1);
                         sys3 = snd (sendExpenseSubmissionNotification w expense sys2)
                     in (JsonExpense 201 expense, sys3)))))"

text \<open>
  PostgreSQL on a number for a \<^verbatim>\<open>numeric(10,2)\<close> column. The driver sends the number
  as its \<^verbatim>\<open>toString\<close>; the database reads that decimal, rounds it to two fraction
  digits (a tie away from zero) and writes it back with two fraction digits. It keeps
  NaN and refuses an infinity and a value of more than eight digits before the point.
\<close>

definition decimalOf :: "rat \<Rightarrow> rat" where
  "decimalOf x =
    (case shortest x [1, 2, 3, 4, 5, 6, 7, 8, 9, 10, 11, 12, 13, 14, 15, 16, 17] of
       (k, n, s) \<Rightarrow> of_int s * pow10 (n - k))"

definition numeric_10_2 :: "jsnum \<Rightarrow> string option" where
  "numeric_10_2 x = (case x of
      NaN \<Rightarrow> Some ''NaN'' | PosInf \<Rightarrow> None | NegInf \<Rightarrow> None
    | Num q \<Rightarrow>
        let n = (if q = 0 then 0 else toFixed_n (decimalOf \<bar>q\<bar>))
        in if 10 ^ 10 \<le> n then None
           else Some ((if q < 0 \<and> n \<noteq> 0 then ''-'' else []) @ fixed2 n))"

section \<open>Observations and sample data\<close>

fun response_code :: "response \<Rightarrow> nat" where
  "response_code (JsonExpense c e) = c"
| "response_code (JsonMessage c m) = c"
| "response_code (JsonValidation c errors) = c"
| "response_code (JsonRate c r) = c"

fun response_expense :: "response \<Rightarrow> Expense option" where
  "response_expense (JsonExpense c e) = Some e"
| "response_expense _ = None"

definition notificationSentOf :: "MemStorage \<Rightarrow> int \<Rightarrow> bool option" where
  "notificationSentOf s i = map_option notificationSent (getExpense s i)"

definition statusOf :: "MemStorage \<Rightarrow> int \<Rightarrow> string option" where
  "statusOf s i = map_option status (getExpense s i)"

text \<open>The rows the sheet has taken: the appends that returned.\<close>

fun appended_row :: "call \<times> outcome \<Rightarrow> Expense list" where
  "appended_row (SheetsAppend e, Returns r) = [e]"
| "appended_row _ = []"

definition appended :: "call_log \<Rightarrow> Expense list" where
  "appended cl = concat (map appended_row cl)"

definition appends_of :: "call_log \<Rightarrow> int \<Rightarrow> nat" where
  "appends_of cl i = length (filter (\<lambda>e. expense_id e = i) (appended cl))"

text \<open>A sheet whose every successful append reports a positive row number.\<close>

definition rows_numbered :: "world \<Rightarrow> bool" where
  "rows_numbered w = (\<forall>cl e r. w cl (SheetsAppend e) = Returns r \<longrightarrow> js_positive (rowNumberOf r))"

text \<open>Sample worlds. In \<open>world_ok\<close> every call returns; an append reports the range of
  the next free row below the header. In \<open>world_ledger_down\<close> the sheet throws, in
  \<open>world_mail_down\<close> the mail service throws, and in \<open>world_no_range\<close> an append is
  stored and its response carries no range.\<close>

definition world_ok :: world where
  "world_ok cl c =
    (case c of
       SheetsAppend e \<Rightarrow>
         Returns (Some (''Expenses!A'' @ digits (2 + int (length (appended cl))) @
                        '':O'' @ digits (2 + int (length (appended cl)))))
     | DriveUpload n t d \<Rightarrow> Returns (Some (''https://drive.google.com/file/'' @ n))
     | _ \<Rightarrow> Returns None)"

definition world_ledger_down :: world where
  "world_ledger_down cl c =
    (case c of SheetsAppend e \<Rightarrow> Throws | SheetsUpdate e \<Rightarrow> Throws | _ \<Rightarrow> world_ok cl c)"

definition world_mail_down :: world where
  "world_mail_down cl c = (case c of GmailSend to m \<Rightarrow> Throws | _ \<Rightarrow> world_ok cl c)"

definition world_no_range :: world where
  "world_no_range cl c = (case c of SheetsAppend e \<Rightarrow> Returns None | _ \<Rightarrow> world_ok cl c)"

definition sys_default :: Sys where
  "sys_default = \<lparr>storage = initializeDefaultData 1750700000000 MemStorage_new, calls = []\<rparr>"

definition body_decide :: "string \<Rightarrow> string \<Rightarrow> StatusBody" where
  "body_decide st note = \<lparr>sb_status = Some st, sb_approvalNote = Some note\<rparr>"

definition body_manual :: "string \<Rightarrow> ExpenseBody" where
  "body_manual a = \<lparr>body_amount = Some a, body_mileageDistance = None, body_mileageRate = None,
     body_description = Some ''Team lunch'', body_category = Some ''Meals & Entertainment'',
     body_expenseDate = Some (Date 1750636800000), body_receiptUrl = None,
     body_receiptFileData = None, body_receiptFileType = None, body_receiptFileName = None,
     body_status = None, body_approvalNote = None, body_emailId = None,
     body_formSubmissionId = None, body_sheetsRowNumber = None\<rparr>"

definition body_mileage :: "string \<Rightarrow> string \<Rightarrow> ExpenseBody" where
  "body_mileage distance rate = \<lparr>body_amount = None, body_mileageDistance = Some distance,
     body_mileageRate = Some rate,
     body_description = Some ''Client visit'', body_category = Some ''Mileage'',
     body_expenseDate = Some (Date 1750636800000), body_receiptUrl = None,
     body_receiptFileData = None, body_receiptFileType = None, body_receiptFileName = None,
     body_status = None, body_approvalNote = None, body_emailId = None,
     body_formSubmissionId = None, body_sheetsRowNumber = None\<rparr>"

text \<open>The default system after the finance manager (user 2) has approved expense 1.\<close>

definition sys_approved :: Sys where
  "sys_approved = snd (patch_expense_status world_ok 1750700001000 2 1
                         (body_decide ''approved'' ''Approved, within policy'') sys_default)"

text \<open>The default system with the mileage rate set to 0.68.\<close>

definition sys_rate :: Sys where
  "sys_rate = sys_default\<lparr>storage := snd (setSetting 1750700002000
                 \<lparr>is_key = ''mileage_rate'', is_value = ''0.68''\<rparr> (storage sys_default))\<rparr>"

text \<open>The default store after expense 1 has been approved by user 2.\<close>

definition store_one_approved :: MemStorage where
  "store_one_approved = snd (updateExpenseStatus 1750700001000 1
      \<lparr>ues_status = Approved, ues_approvalNote = Some ''ok'', ues_approvedBy = 2,
       ues_approvedByName = ''Finance Manager''\<rparr> (storage sys_default))"

definition insert_sample :: InsertExpense where
  "insert_sample = \<lparr>ie_employeeId = 4, ie_employeeName = ''Michael Johnson'',
     ie_employeeEmail = ''michael@agency.com'', ie_department = Some ''Engineering'',
     ie_amount = AmountNumber (Num 12), ie_description = ''Parking'',
     ie_category = ''Transportation'', ie_expenseDate = Date 1750636800000,
     ie_status = Some ''approved'', ie_approvalNote = Some ''self-approved'',
     ie_receiptUrl = None, ie_receiptFileName = None, ie_emailId = None,
     ie_formSubmissionId = None, ie_sheetsRowNumber = None\<rparr>"

text \<open>The default system after a sheet synchronisation that gave every expense its row.\<close>

definition sys_synced :: Sys where
  "sys_synced = snd (syncExpensesToSheet world_ok sys_default)"

text \<open>Sarah Miller (user 3) submits a lunch; the finance manager (user 2) approves
  expense 1 after the synchronisation.\<close>

definition user_sarah :: User where
  "user_sarah = the (getUser (storage sys_default) 3)"

definition ie_lunch :: InsertExpense where
  "ie_lunch = projr (insertExpenseSchema_parse (body_manual ''156.50'')
                       (calculatedAmount (body_manual ''156.50'')) user_sarah [])"

definition e_lunch :: Expense where
  "e_lunch = fst (createExpense 1750700006000 ie_lunch (storage sys_default))"

definition user_manager :: User where
  "user_manager = the (getUser (storage sys_synced) 2)"

definition ud_approve :: UpdateExpenseStatus where
  "ud_approve = projr (updateExpenseStatusSchema_parse (body_decide ''approved'' ''ok'')
                         (user_id user_manager) (user_name user_manager))"

definition e_decided :: Expense where
  "e_decided = the (fst (updateExpenseStatus 1750700007000 1 ud_approve (storage sys_synced)))"

text \<open>What the routes answer while the mail service is down.\<close>

definition e_decided_mail_down :: Expense where
  "e_decided_mail_down = the (response_expense (fst (patch_expense_status world_mail_down
      1750700007000 2 1 (body_decide ''approved'' ''ok'') sys_default)))"

definition e_created_mail_down :: Expense where
  "e_created_mail_down = the (response_expense (fst (post_expenses world_mail_down
      1750700007000 3 (body_manual ''156.50'') sys_default)))"

text \<open>Sarah Miller submits 10 miles with the rate 5 in the request body.\<close>

definition ie_mileage :: InsertExpense where
  "ie_mileage = projr (insertExpenseSchema_parse (body_mileage ''10'' ''5'')
                         (calculatedAmount (body_mileage ''10'' ''5'')) user_sarah [])"

definition e_mileage :: Expense where
  "e_mileage = fst (createExpense 1750700008000 ie_mileage (storage sys_rate))"

text \<open>Sarah Miller submits a trip of 0 miles at the rate 0.68.\<close>

definition ie_zero :: InsertExpense where
  "ie_zero = projr (insertExpenseSchema_parse (body_mileage ''0'' ''0.68'')
                      (calculatedAmount (body_mileage ''0'' ''0.68'')) user_sarah [])"

text \<open>The expenses of a store that carry a row reference.\<close>

definition synced :: "MemStorage \<Rightarrow> int set" where
  "synced s = {i. \<exists>e. getExpense s i = Some e \<and> opt_truthy (sheetsRowNumber e)}"

text \<open>A world whose sheet reports the same range for every append.\<close>

definition world_fixed_row :: world where
  "world_fixed_row cl c =
    (case c of SheetsAppend e \<Rightarrow> Returns (Some ''Expenses!A7:O7'') | _ \<Rightarrow> Returns None)"

text \<open>One run of the synchronisation, as a state change; and the default system with a
  row reference on expense 1 only.\<close>

definition run_sync :: "world \<Rightarrow> Sys \<Rightarrow> Sys" where
  "run_sync w sys = snd (syncExpensesToSheet w sys)"

definition sys_partly :: Sys where
  "sys_partly = sys_default\<lparr>storage := snd (updateExpense 1
      \<lparr>patch_sheetsRowNumber = Some (Num 2), patch_notificationSent = None\<rparr>
      (storage sys_default))\<rparr>"

text \<open>Sarah Miller, an employee, submits a lunch and puts a status and an approval
  note of her own into the request body.\<close>

definition body_self_approved :: ExpenseBody where
  "body_self_approved = (body_manual ''12.00'')\<lparr>body_status := Some ''approved'',
     body_approvalNote := Some ''self-approved''\<rparr>"

definition ie_self_approved :: InsertExpense where
  "ie_self_approved = projr (insertExpenseSchema_parse body_self_approved
                               (calculatedAmount body_self_approved) user_sarah [])"

definition e_self_approved :: Expense where
  "e_self_approved = fst (projr (DatabaseStorage_createExpense numeric_10_2 1750700006000
                                   ie_self_approved (storage sys_default)))"

text \<open>The default store after an insert that carries the status paid.\<close>

definition store_paid :: MemStorage where
  "store_paid = snd (projr (DatabaseStorage_createExpense numeric_10_2 1750700006000
      (ie_self_approved\<lparr>ie_status := Some ''paid''\<rparr>) (storage sys_default)))"

text \<open>A store with three approved expenses of 0.10, 0.20 and 0.30.\<close>

definition insert_amount :: "string \<Rightarrow> InsertExpense" where
  "insert_amount a = \<lparr>ie_employeeId = 3, ie_employeeName = ''Sarah Miller'',
     ie_employeeEmail = ''sarah@agency.com'', ie_department = Some ''Marketing'',
     ie_amount = AmountText a, ie_description = ''Parking'',
     ie_category = ''Transportation'', ie_expenseDate = Date 1750636800000,
     ie_status = None, ie_approvalNote = None,
     ie_receiptUrl = None, ie_receiptFileName = None, ie_emailId = None,
     ie_formSubmissionId = None, ie_sheetsRowNumber = None\<rparr>"

definition approve_by_manager :: UpdateExpenseStatus where
  "approve_by_manager = \<lparr>ues_status = Approved, ues_approvalNote = None, ues_approvedBy = 2,
     ues_approvedByName = ''Finance Manager''\<rparr>"

definition store_dimes :: MemStorage where
  "store_dimes =
    (let s1 = snd (createExpense 1 (insert_amount ''0.10'') MemStorage_new);
         s2 = snd (createExpense 2 (insert_amount ''0.20'') s1);
         s3 = snd (createExpense 3 (insert_amount ''0.30'') s2);
         s4 = snd (updateExpenseStatus 4 1 approve_by_manager s3);
         s5 = snd (updateExpenseStatus 5 2 approve_by_manager s4)
     in snd (updateExpenseStatus 6 3 approve_by_manager s5))"

section \<open>The store invariant\<close>

lemma Map_get_set: "Map_get (Map_set k v m) k' = (if k' = k then Some v else Map_get m k')"
  by (simp add: Map_get_def Map_set_def update_conv')

lemma keys_Map_set: "fst ` set (Map_set k v m) = insert k (fst ` set m)"
  by (simp add: Map_set_def dom_update)

lemma distinct_Map_set: "distinct (map fst m) \<Longrightarrow> distinct (map fst (Map_set k v m))"
  by (simp add: Map_set_def distinct_update)

lemma set_Map_set_subset: "set (Map_set k v m) \<subseteq> insert (k, v) (set m)"
  unfolding Map_set_def by (induction m) auto

lemma store_inv_new: "store_inv MemStorage_new"
  by (simp add: store_inv_def MemStorage_new_def)

lemma store_inv_createUser: "store_inv s \<Longrightarrow> store_inv (snd (createUser now u s))"
  by (simp add: store_inv_def createUser_def Let_def)

lemma store_inv_setSetting: "store_inv s \<Longrightarrow> store_inv (snd (setSetting now st s))"
  by (simp add: store_inv_def setSetting_def Let_def split: option.splits)

lemma store_inv_createExpense:
  assumes "store_inv s" shows "store_inv (snd (createExpense now ie s))"
proof -
  let ?i = "currentExpenseId s"
  let ?e = "fst (createExpense now ie s)"
  have ex: "expenses (snd (createExpense now ie s)) = Map_set ?i ?e (expenses s)"
    and cur: "currentExpenseId (snd (createExpense now ie s)) = ?i + 1"
    and eid: "expense_id ?e = ?i" and st: "status ?e = ''pending''"
    by (simp_all add: createExpense_def Let_def)
  have d: "distinct (map fst (Map_set ?i ?e (expenses s)))"
    using assms by (simp add: store_inv_def distinct_Map_set)
  have "\<forall>(k, e) \<in> set (Map_set ?i ?e (expenses s)). expense_id e = k \<and> k < ?i + 1 \<and>
        (status e = ''pending'' \<or> status e = ''approved'' \<or> status e = ''rejected'')"
  proof (clarify)
    fix k e assume "(k, e) \<in> set (Map_set ?i ?e (expenses s))"
    then have "(k, e) = (?i, ?e) \<or> (k, e) \<in> set (expenses s)"
      using set_Map_set_subset by fastforce
    then show "expense_id e = k \<and> k < ?i + 1 \<and>
        (status e = ''pending'' \<or> status e = ''approved'' \<or> status e = ''rejected'')"
      using assms eid st by (auto simp: store_inv_def)
  qed
  then show ?thesis using d unfolding store_inv_def ex cur by simp
qed

lemma store_inv_update:
  assumes "store_inv s" "Map_get (expenses s) i = Some e" "expense_id e' = expense_id e"
    "status e' = ''pending'' \<or> status e' = ''approved'' \<or> status e' = ''rejected''"
  shows "store_inv (s\<lparr>expenses := Map_set i e' (expenses s)\<rparr>)"
proof -
  have mem: "(i, e) \<in> set (expenses s)"
    using assms(2) by (simp add: Map_get_def map_of_SomeD)
  then have ie: "expense_id e = i" "i < currentExpenseId s"
    using assms(1) by (auto simp: store_inv_def)
  have "\<forall>(k, x) \<in> set (Map_set i e' (expenses s)). expense_id x = k \<and> k < currentExpenseId s \<and>
        (status x = ''pending'' \<or> status x = ''approved'' \<or> status x = ''rejected'')"
  proof (clarify)
    fix k x assume "(k, x) \<in> set (Map_set i e' (expenses s))"
    then have "(k, x) = (i, e') \<or> (k, x) \<in> set (expenses s)"
      using set_Map_set_subset by fastforce
    then show "expense_id x = k \<and> k < currentExpenseId s \<and>
        (status x = ''pending'' \<or> status x = ''approved'' \<or> status x = ''rejected'')"
      using assms ie by (auto simp: store_inv_def)
  qed
  then show ?thesis using assms(1) by (simp add: store_inv_def distinct_Map_set)
qed

lemma verdict_text_cases: "verdict_text v = ''approved'' \<or> verdict_text v = ''rejected''"
  by (cases v) simp_all

lemma store_inv_updateExpenseStatus:
  assumes "store_inv s" shows "store_inv (snd (updateExpenseStatus now i u s))"
proof (cases "Map_get (expenses s) i")
  case None
  then show ?thesis using assms by (simp add: updateExpenseStatus_def)
next
  case (Some e)
  then show ?thesis
    using store_inv_update [OF assms Some, of "e\<lparr>status := verdict_text (ues_status u),
               approvalNote := or_null (ues_approvalNote u),
               approvedBy := Some (ues_approvedBy u),
               approvedByName := Some (ues_approvedByName u),
               approvalDate := Some now,
               notificationSent := False\<rparr>"] verdict_text_cases [of "ues_status u"]
    by (simp add: updateExpenseStatus_def Let_def)
qed

lemma applyPatch_same [simp]:
  "expense_id (applyPatch p e) = expense_id e" "status (applyPatch p e) = status e"
  by (simp_all add: applyPatch_def Let_def split: option.splits)

lemma store_inv_updateExpense:
  assumes "store_inv s" shows "store_inv (snd (updateExpense i p s))"
proof (cases "Map_get (expenses s) i")
  case None
  then show ?thesis using assms by (simp add: updateExpense_def)
next
  case (Some e)
  have "(i, e) \<in> set (expenses s)"
    using Some by (simp add: Map_get_def map_of_SomeD)
  then have "status e = ''pending'' \<or> status e = ''approved'' \<or> status e = ''rejected''"
    using assms by (auto simp: store_inv_def)
  then show ?thesis
    using store_inv_update [OF assms Some, of "applyPatch p e"] Some
    by (simp add: updateExpense_def Let_def)
qed

lemma reachable_store_inv: "reachable s \<Longrightarrow> store_inv s"
  by (induction rule: reachable.induct)
     (simp_all add: store_inv_new store_inv_createUser store_inv_createExpense
        store_inv_updateExpenseStatus store_inv_updateExpense store_inv_setSetting)

section \<open>Storage operations\<close>

lemma getExpense_updateExpense:
  "getExpense (snd (updateExpense j p s)) k =
     (if k = j then map_option (applyPatch p) (getExpense s j) else getExpense s k)"
  by (simp add: updateExpense_def getExpense_def Map_get_set Let_def split: option.splits)

lemma getUser_updateExpense [simp]: "getUser (snd (updateExpense j p s)) = getUser s"
  by (simp add: updateExpense_def getUser_def Let_def fun_eq_iff split: option.splits)

lemma getExpense_createExpense:
  "getExpense (snd (createExpense now ie s)) k =
     (if k = currentExpenseId s then Some (fst (createExpense now ie s)) else getExpense s k)"
  by (simp add: createExpense_def getExpense_def Map_get_set Let_def)

lemma expense_id_createExpense: "expense_id (fst (createExpense now ie s)) = currentExpenseId s"
  by (simp add: createExpense_def Let_def)

lemma getExpense_updateExpenseStatus:
  "getExpense (snd (updateExpenseStatus now j u s)) k =
     (if k = j then fst (updateExpenseStatus now j u s) else getExpense s k)"
  by (simp add: updateExpenseStatus_def getExpense_def Map_get_set Let_def split: option.splits)

lemma updateExpenseStatus_result:
  "fst (updateExpenseStatus now j u s) =
     map_option (\<lambda>e. e\<lparr>status := verdict_text (ues_status u),
                        approvalNote := or_null (ues_approvalNote u),
                        approvedBy := Some (ues_approvedBy u),
                        approvedByName := Some (ues_approvedByName u),
                        approvalDate := Some now,
                        notificationSent := False\<rparr>) (getExpense s j)"
  by (simp add: updateExpenseStatus_def getExpense_def Let_def split: option.splits)

lemma fresh_key:
  assumes "store_inv s" shows "getExpense s (currentExpenseId s) = None"
proof -
  have "currentExpenseId s \<notin> fst ` set (expenses s)"
    using assms by (auto simp: store_inv_def)
  then show ?thesis
    by (simp add: getExpense_def Map_get_def map_of_eq_None_iff)
qed

lemma fresh_id:
  assumes "store_inv s" shows "currentExpenseId s \<notin> expense_id ` set (Map_values (expenses s))"
  using assms by (fastforce simp: store_inv_def Map_values_def)

section \<open>The sinks\<close>

lemma perform_calls: "calls (snd (perform w c sys)) = calls sys @ [(c, w (calls sys) c)]"
  and perform_storage: "storage (snd (perform w c sys)) = storage sys"
  and perform_fst: "fst (perform w c sys) = w (calls sys) c"
  by (simp_all add: perform_def Let_def)

lemma perform_eq: "perform w c sys = (w (calls sys) c, sys\<lparr>calls := calls sys @ [(c, w (calls sys) c)]\<rparr>)"
  by (simp add: perform_def Let_def)

lemma sendNotificationEmail_storage:
  "storage (snd (sendNotificationEmail w to m sys)) = storage sys"
  by (simp add: sendNotificationEmail_def perform_eq split: outcome.splits)

lemma sendNotificationEmail_calls:
  "calls (snd (sendNotificationEmail w to m sys)) = calls sys @ [(GmailSend to m, w (calls sys) (GmailSend to m))]"
  by (simp add: sendNotificationEmail_def perform_eq split: outcome.splits)

lemma sendToApprovers_storage:
  "storage (snd (sendToApprovers w as e sys)) = storage sys"
proof (induction as arbitrary: sys)
  case Nil
  then show ?case by simp
next
  case (Cons a as)
  show ?case
  proof (cases "sendNotificationEmail w (fst a) (SubmissionMail e) sys")
    case (Pair r sys1)
    then have "storage sys1 = storage sys"
      using sendNotificationEmail_storage [of w "fst a" "SubmissionMail e" sys] by simp
    then show ?thesis using Pair Cons.IH [of sys1] by (cases r) simp_all
  qed
qed

lemma sendExpenseSubmissionNotification_storage:
  "storage (snd (sendExpenseSubmissionNotification w e sys)) = storage sys"
  by (simp add: sendExpenseSubmissionNotification_def sendToApprovers_storage)

lemma sendExpenseSubmissionNotification_returns:
  "fst (sendExpenseSubmissionNotification w e sys) = Inr ()"
  by (simp add: sendExpenseSubmissionNotification_def)

lemma sendExpenseSubmissionNotification_first_mail:
  assumes "expenseDate e \<noteq> InvalidDate"
  shows "(GmailSend ''manager@agency.com'' (SubmissionMail e),
          w (calls sys) (GmailSend ''manager@agency.com'' (SubmissionMail e)))
         \<in> set (calls (snd (sendExpenseSubmissionNotification w e sys)))"
proof -
  let ?c = "GmailSend ''manager@agency.com'' (SubmissionMail e)"
  obtain r sys1 where p: "sendNotificationEmail w ''manager@agency.com'' (SubmissionMail e) sys = (r, sys1)"
    by (cases "sendNotificationEmail w ''manager@agency.com'' (SubmissionMail e) sys")
  have c1: "calls sys1 = calls sys @ [(?c, w (calls sys) ?c)]"
    using sendNotificationEmail_calls [of w "''manager@agency.com''" "SubmissionMail e" sys] p by simp
  show ?thesis
  proof (cases r)
    case (Inl err)
    then show ?thesis
      using assms p c1 by (simp add: sendExpenseSubmissionNotification_def getApprovers_def)
  next
    case (Inr u)
    obtain r2 sys2 where p2: "sendNotificationEmail w ''admin@agency.com'' (SubmissionMail e) sys1 = (r2, sys2)"
      by (cases "sendNotificationEmail w ''admin@agency.com'' (SubmissionMail e) sys1")
    have "calls sys2 = calls sys1 @ [(GmailSend ''admin@agency.com'' (SubmissionMail e),
                                      w (calls sys1) (GmailSend ''admin@agency.com'' (SubmissionMail e)))]"
      using sendNotificationEmail_calls [of w "''admin@agency.com''" "SubmissionMail e" sys1] p2 by simp
    then show ?thesis
      using assms p p2 c1 Inr
      by (cases r2) (simp_all add: sendExpenseSubmissionNotification_def getApprovers_def)
  qed
qed

lemma sendApprovalNotification_returns: "fst (sendApprovalNotification w e sys) = Inr ()"
  by (simp add: sendApprovalNotification_def split: prod.splits sum.splits)

lemma sendApprovalNotification_storage:
  "storage (snd (sendApprovalNotification w e sys)) =
     (if expenseDate e \<noteq> InvalidDate \<and> w (calls sys) (GmailSend (employeeEmail e) (ApprovalMail e)) \<noteq> Throws
      then snd (updateExpense (expense_id e)
              \<lparr>patch_sheetsRowNumber = None, patch_notificationSent = Some True\<rparr> (storage sys))
      else storage sys)"
  by (simp add: sendApprovalNotification_def sendNotificationEmail_def perform_eq
           split: outcome.splits)

lemma sendApprovalNotification_calls:
  "calls (snd (sendApprovalNotification w e sys)) =
     (if expenseDate e = InvalidDate then calls sys
      else calls sys @ [(GmailSend (employeeEmail e) (ApprovalMail e),
                         w (calls sys) (GmailSend (employeeEmail e) (ApprovalMail e)))])"
  by (simp add: sendApprovalNotification_def sendNotificationEmail_def perform_eq
           split: outcome.splits)

lemma addExpense_storage:
  "storage (snd (addExpense w e sys)) =
     (if expenseDate e \<noteq> InvalidDate
      then (case w (calls sys) (SheetsAppend e) of
              Throws \<Rightarrow> storage sys
            | Returns r \<Rightarrow>
                if js_positive (rowNumberOf r)
                then snd (updateExpense (expense_id e)
                       \<lparr>patch_sheetsRowNumber = Some (rowNumberOf r), patch_notificationSent = None\<rparr>
                       (storage sys))
                else storage sys)
      else storage sys)"
  by (simp add: addExpense_def perform_eq Let_def split: outcome.splits)

lemma addExpense_calls:
  "calls (snd (addExpense w e sys)) =
     (if expenseDate e = InvalidDate then calls sys
      else calls sys @ [(SheetsAppend e, w (calls sys) (SheetsAppend e))])"
  by (simp add: addExpense_def perform_eq Let_def split: outcome.splits)

lemma addExpense_throws_storage:
  "fst (addExpense w e sys) = Inl err \<Longrightarrow> storage (snd (addExpense w e sys)) = storage sys"
  by (simp add: addExpense_def perform_eq Let_def split: outcome.splits if_splits)

lemma sheets_updateExpenseStatus_storage:
  "storage (snd (sheets_updateExpenseStatus w e sys)) = storage sys"
  by (simp add: sheets_updateExpenseStatus_def perform_eq split: outcome.splits)

lemma sheets_updateExpenseStatus_calls:
  "calls (snd (sheets_updateExpenseStatus w e sys)) =
     (if opt_truthy (sheetsRowNumber e)
      then calls sys @ [(SheetsUpdate e, w (calls sys) (SheetsUpdate e))] else calls sys)"
  by (simp add: sheets_updateExpenseStatus_def perform_eq split: outcome.splits)

section \<open>Listing and statistics\<close>

text \<open>
  C6. For every store state, list-by-status(s) returns exactly the subsequence of
  list-all whose elements have status s, in the same relative order, both sorted by
  submissionDate descending; the list operations on an empty table return the empty
  sequence.
\<close>

theorem list_by_status_is_filtered_list_all:
  "getExpensesByStatus s st = filter (\<lambda>e. status e = st) (getAllExpenses s)
   \<and> sorted (map (\<lambda>e. - submissionDate e) (getAllExpenses s))
   \<and> getAllExpenses (s\<lparr>expenses := []\<rparr>) = []
   \<and> getExpensesByStatus (s\<lparr>expenses := []\<rparr>) st = []
   \<and> getExpensesByEmployee (s\<lparr>expenses := []\<rparr>) i = []"
  by (simp add: getExpensesByStatus_def getAllExpenses_def getExpensesByEmployee_def
        sortBySubmissionDateDesc_def filter_sort Map_values_def)

lemma three_way_count:
  assumes "a \<noteq> b" "a \<noteq> c" "b \<noteq> c"
  shows "length (filter (\<lambda>x. f x = a) xs) + length (filter (\<lambda>x. f x = b) xs)
         + length (filter (\<lambda>x. f x = c) xs)
         = length (filter (\<lambda>x. f x = a \<or> f x = b \<or> f x = c) xs)"
  using assms by (induction xs) auto

lemma reachable_default: "reachable (initializeDefaultData now MemStorage_new)"
  unfolding initializeDefaultData_def Let_def by (intro reachable.intros)

lemma js_sum_exact:
  assumes "\<forall>i \<le> length qs. fl (sum_list (take i qs)) = Num (sum_list (take i qs))"
  shows "foldl js_plus (Num 0) (map Num qs) = Num (sum_list qs)"
  using assms
proof (induction qs rule: rev_induct)
  case Nil
  then show ?case by simp
next
  case (snoc q qs)
  have "fl (sum_list (take i qs)) = Num (sum_list (take i qs))" if "i \<le> length qs" for i
    using snoc.prems [rule_format, of i] that by simp
  then have ih: "foldl js_plus (Num 0) (map Num qs) = Num (sum_list qs)"
    using snoc.IH by blast
  have "fl (sum_list (qs @ [q])) = Num (sum_list (qs @ [q]))"
    using snoc.prems [rule_format, of "length (qs @ [q])"] by simp
  then show ?case using ih by simp
qed

lemma totalAmount_fold:
  "totalAmount (getExpenseStats s) =
     foldl js_plus (Num 0)
       (map (\<lambda>e. parseFloat (amount e))
          (filter (\<lambda>e. status e = ''approved'') (Map_values (expenses s))))"
  by (simp add: getExpenseStats_def Let_def foldl_map)

lemma Map_values_filter:
  "Map_values (filter (\<lambda>(k, e). P e) m) = filter P (Map_values m)"
  by (induction m) (auto simp: Map_values_def)

text \<open>
  C7 (as the code has it). In every store state pendingCount + approvedCount +
  rejectedCount is the number of expenses whose status is pending, approved or
  rejected; it is the number of all expenses when no expense has another status.
  totalAmount is the JavaScript sum of the parsed amounts of the approved expenses, in
  the order of the table and from 0, each addition rounded to binary64; the expenses of
  another status add nothing. It is the exact sum of those amounts when every running
  sum is a binary64 number.
\<close>

theorem stats_counts_and_binary64_total:
  "pendingCount (getExpenseStats s) + approvedCount (getExpenseStats s)
       + rejectedCount (getExpenseStats s)
     = length (filter (\<lambda>e. status e = ''pending'' \<or> status e = ''approved'' \<or> status e = ''rejected'')
                 (Map_values (expenses s)))
   \<and> ((\<forall>e \<in> set (Map_values (expenses s)).
          status e = ''pending'' \<or> status e = ''approved'' \<or> status e = ''rejected'')
        \<longrightarrow> pendingCount (getExpenseStats s) + approvedCount (getExpenseStats s)
              + rejectedCount (getExpenseStats s) = length (Map_values (expenses s)))
   \<and> totalAmount (getExpenseStats s) =
       foldl js_plus (Num 0)
         (map (\<lambda>e. parseFloat (amount e))
            (filter (\<lambda>e. status e = ''approved'') (Map_values (expenses s))))
   \<and> totalAmount (getExpenseStats (s\<lparr>expenses := filter (\<lambda>(k, e). status e = ''approved'') (expenses s)\<rparr>))
       = totalAmount (getExpenseStats s)
   \<and> (map (\<lambda>e. parseFloat (amount e))
          (filter (\<lambda>e. status e = ''approved'') (Map_values (expenses s))) = map Num qs
        \<and> (\<forall>i \<le> length qs. fl (sum_list (take i qs)) = Num (sum_list (take i qs)))
        \<longrightarrow> totalAmount (getExpenseStats s) = Num (sum_list qs))"
proof (intro conjI impI)
  let ?all = "Map_values (expenses s)"
  show counts: "pendingCount (getExpenseStats s) + approvedCount (getExpenseStats s)
       + rejectedCount (getExpenseStats s)
     = length (filter (\<lambda>e. status e = ''pending'' \<or> status e = ''approved'' \<or> status e = ''rejected'') ?all)"
    using three_way_count [of "''pending''" "''approved''" "''rejected''" status ?all]
    by (simp add: getExpenseStats_def Let_def)
  show "pendingCount (getExpenseStats s) + approvedCount (getExpenseStats s)
              + rejectedCount (getExpenseStats s) = length ?all"
    if "\<forall>e \<in> set ?all. status e = ''pending'' \<or> status e = ''approved'' \<or> status e = ''rejected''"
  proof -
    have "filter (\<lambda>e. status e = ''pending'' \<or> status e = ''approved'' \<or> status e = ''rejected'') ?all
            = ?all"
      using that by (simp add: filter_id_conv)
    then show ?thesis using counts by simp
  qed
  show "totalAmount (getExpenseStats s) =
       foldl js_plus (Num 0)
         (map (\<lambda>e. parseFloat (amount e)) (filter (\<lambda>e. status e = ''approved'') ?all))"
    by (rule totalAmount_fold)
  show "totalAmount (getExpenseStats (s\<lparr>expenses := filter (\<lambda>(k, e). status e = ''approved'') (expenses s)\<rparr>))
       = totalAmount (getExpenseStats s)"
    by (simp add: totalAmount_fold Map_values_filter)
  show "totalAmount (getExpenseStats s) = Num (sum_list qs)"
    if "map (\<lambda>e. parseFloat (amount e)) (filter (\<lambda>e. status e = ''approved'') ?all) = map Num qs
        \<and> (\<forall>i \<le> length qs. fl (sum_list (take i qs)) = Num (sum_list (take i qs)))"
    using that js_sum_exact [of qs] by (simp add: totalAmount_fold)
qed

lemma one_approved_facts:
  "map status (Map_values (expenses store_one_approved)) = [''approved'', ''pending'', ''pending'']"
  "map (\<lambda>e. parseFloat (amount e))
     (filter (\<lambda>e. status e = ''approved'') (Map_values (expenses store_one_approved)))
     = [Num (313 / 2)]"
  "length (Map_values (expenses store_one_approved)) = 3"
  "fl 0 = Num 0"
  "fl (313 / 2) = Num (313 / 2)"
  by code_simp+

theorem stats_counts_and_binary64_total_witness:
  "map status (Map_values (expenses store_one_approved)) = [''approved'', ''pending'', ''pending'']
   \<and> length (Map_values (expenses store_one_approved)) = 3
   \<and> pendingCount (getExpenseStats store_one_approved) + approvedCount (getExpenseStats store_one_approved)
       + rejectedCount (getExpenseStats store_one_approved) = 3
   \<and> map (\<lambda>e. parseFloat (amount e))
        (filter (\<lambda>e. status e = ''approved'') (Map_values (expenses store_one_approved)))
        = [Num (313 / 2)]
   \<and> fl 0 = Num 0 \<and> fl (313 / 2) = Num (313 / 2)
   \<and> totalAmount (getExpenseStats store_one_approved) = Num (313 / 2)"
proof -
  have sts: "\<forall>e \<in> set (Map_values (expenses store_one_approved)).
               status e = ''pending'' \<or> status e = ''approved'' \<or> status e = ''rejected''"
  proof
    fix e assume "e \<in> set (Map_values (expenses store_one_approved))"
    then have "status e \<in> set (map status (Map_values (expenses store_one_approved)))"
      by simp
    then show "status e = ''pending'' \<or> status e = ''approved'' \<or> status e = ''rejected''"
      unfolding one_approved_facts(1) by auto
  qed
  have am: "map (\<lambda>e. parseFloat (amount e))
              (filter (\<lambda>e. status e = ''approved'') (Map_values (expenses store_one_approved)))
              = map Num [313 / 2]"
    by (simp add: one_approved_facts(2))
  have run: "fl (sum_list (take i [313 / 2])) = Num (sum_list (take i [313 / 2 :: rat]))"
    if "i \<le> length [313 / 2 :: rat]" for i
  proof -
    from that have "i = 0 \<or> i = 1" by auto
    then show ?thesis by (auto simp: one_approved_facts(4,5))
  qed
  then have all: "\<forall>i \<le> length [313 / 2 :: rat].
                    fl (sum_list (take i [313 / 2])) = Num (sum_list (take i [313 / 2]))"
    by blast
  note t = stats_counts_and_binary64_total [of store_one_approved "[313 / 2]"]
  from t sts have "pendingCount (getExpenseStats store_one_approved)
               + approvedCount (getExpenseStats store_one_approved)
               + rejectedCount (getExpenseStats store_one_approved)
               = length (Map_values (expenses store_one_approved))"
    by blast
  then have cnt: "pendingCount (getExpenseStats store_one_approved)
               + approvedCount (getExpenseStats store_one_approved)
               + rejectedCount (getExpenseStats store_one_approved) = 3"
    by (simp only: one_approved_facts(3))
  from t am all have "totalAmount (getExpenseStats store_one_approved) = Num (sum_list [313 / 2])"
    by blast
  then have tot: "totalAmount (getExpenseStats store_one_approved) = Num (313 / 2)"
    by simp
  show ?thesis
    by (intro conjI one_approved_facts cnt tot)
qed

text \<open>
  C7 as stated fails twice. A store that holds an expense of status paid, as an insert
  of \<^verbatim>\<open>DatabaseStorage.createExpense\<close> with that status leaves it, has four expenses
  and the three counts add up to three. With the approved amounts 0.10, 0.20 and 0.30
  totalAmount is 0.6000000000000001 and not 0.60.
\<close>

lemma stats_samples:
  "length (Map_values (expenses store_paid)) = 4"
  "pendingCount (getExpenseStats store_paid) + approvedCount (getExpenseStats store_paid)
       + rejectedCount (getExpenseStats store_paid) = 3"
  "map status (Map_values (expenses store_paid)) = [''pending'', ''pending'', ''pending'', ''paid'']"
  "map amount (Map_values (expenses store_dimes)) = [''0.10'', ''0.20'', ''0.30'']"
  "approvedCount (getExpenseStats store_dimes) = 3"
  "totalAmount (getExpenseStats store_dimes) = Num (1351079888211149 / 2251799813685248)"
  "parseFloat ''0.6000000000000001'' = Num (1351079888211149 / 2251799813685248)"
  "parseFloat ''0.60'' = Num (5404319552844595 / 9007199254740992)"
  by code_simp+

theorem stats_counterexample:
  "length (Map_values (expenses store_paid)) = 4
   \<and> map status (Map_values (expenses store_paid)) = [''pending'', ''pending'', ''pending'', ''paid'']
   \<and> pendingCount (getExpenseStats store_paid) + approvedCount (getExpenseStats store_paid)
       + rejectedCount (getExpenseStats store_paid) = 3
   \<and> map amount (Map_values (expenses store_dimes)) = [''0.10'', ''0.20'', ''0.30'']
   \<and> approvedCount (getExpenseStats store_dimes) = 3
   \<and> totalAmount (getExpenseStats store_dimes) = parseFloat ''0.6000000000000001''
   \<and> totalAmount (getExpenseStats store_dimes) \<noteq> parseFloat ''0.60''"
  by (simp add: stats_samples)

section \<open>Creating an expense\<close>

lemma receiptUrlOf_storage: "storage (snd (receiptUrlOf w body sys)) = storage sys"
  by (simp add: receiptUrlOf_def uploadReceipt_def perform_eq
           split: option.splits list.splits outcome.splits)

lemma post_expenses_created:
  assumes "response_expense (fst (post_expenses w now uid body sys)) = Some e"
  shows "\<exists>ie. e = fst (createExpense now ie (storage sys))"
proof -
  obtain r sys0 where ru: "receiptUrlOf w body sys = (r, sys0)"
    by (cases "receiptUrlOf w body sys")
  then have st: "storage sys0 = storage sys"
    using receiptUrlOf_storage [of w body sys] by simp
  show ?thesis
    using assms ru st
    by (auto simp: post_expenses_def Let_def split: option.splits sum.splits error.splits)
qed

lemma createExpense_fields:
  "status (fst (createExpense now ie s)) = ''pending''"
  "notificationSent (fst (createExpense now ie s)) = False"
  "approvedBy (fst (createExpense now ie s)) = None"
  "approvedByName (fst (createExpense now ie s)) = None"
  "approvalDate (fst (createExpense now ie s)) = None"
  "approvalNote (fst (createExpense now ie s)) = None"
  "submissionDate (fst (createExpense now ie s)) = now"
  by (simp_all add: createExpense_def Let_def)

lemma MemStorage_createExpense_pending_and_fresh:
  assumes "reachable s"
  shows "status (fst (createExpense now ie s)) = ''pending''"
    and "notificationSent (fst (createExpense now ie s)) = False"
    and "approvedBy (fst (createExpense now ie s)) = None"
    and "approvedByName (fst (createExpense now ie s)) = None"
    and "approvalDate (fst (createExpense now ie s)) = None"
    and "approvalNote (fst (createExpense now ie s)) = None"
    and "submissionDate (fst (createExpense now ie s)) = now"
    and "expense_id (fst (createExpense now ie s)) \<notin> expense_id ` set (Map_values (expenses s))"
    and "getExpense (snd (createExpense now ie s)) (expense_id (fst (createExpense now ie s)))
           = Some (fst (createExpense now ie s))"
  using fresh_id [OF reachable_store_inv [OF assms]]
  by (simp_all add: createExpense_fields expense_id_createExpense getExpense_createExpense)

lemma DatabaseStorage_createExpense_row:
  assumes "DatabaseStorage_createExpense numeric now ie s = Inr (e, s')"
  shows "status e = (case ie_status ie of Some st \<Rightarrow> st | None \<Rightarrow> ''pending'')"
    and "approvalNote e = ie_approvalNote ie"
    and "notificationSent e = False"
    and "approvedBy e = None" and "approvedByName e = None" and "approvalDate e = None"
    and "submissionDate e = now"
    and "expense_id e = currentExpenseId s"
    and "getExpense s' (expense_id e) = Some e"
  using assms
  by (auto simp: DatabaseStorage_createExpense_def Let_def getExpense_def Map_get_set
           split: if_splits option.splits)

lemma post_expenses_db_creates:
  assumes "getUser (storage sys) uid = Some user"
    and "receiptUrlOf w body sys = (Inr url, sys0)"
    and "insertExpenseSchema_parse body (calculatedAmount body) user url = Inr ie"
    and "DatabaseStorage_createExpense numeric now ie (storage sys0) = Inr (e, s1)"
  shows "post_expenses_db numeric w now uid body sys =
           (JsonExpense 201 e,
            snd (sendExpenseSubmissionNotification w e
                  (snd (addExpense w e (sys0\<lparr>storage := s1\<rparr>)))))"
  using assms by (simp add: post_expenses_db_def Let_def)

lemma parse_keeps_status:
  "insertExpenseSchema_parse body a user url = Inr ie \<Longrightarrow>
   ie_status ie = body_status body \<and> ie_approvalNote ie = body_approvalNote body"
  by (auto simp: insertExpenseSchema_parse_def split: option.splits if_splits)

lemma post_expenses_db_status:
  assumes "fst (post_expenses_db numeric w now uid body sys) = JsonExpense 201 e"
  shows "status e = (case body_status body of Some st \<Rightarrow> st | None \<Rightarrow> ''pending'')"
    and "approvalNote e = body_approvalNote body"
proof -
  obtain r sys0 where ru: "receiptUrlOf w body sys = (r, sys0)"
    by (cases "receiptUrlOf w body sys")
  from assms ru obtain user url ie s1 where
      p: "insertExpenseSchema_parse body (calculatedAmount body) user url = Inr ie"
      and c: "DatabaseStorage_createExpense numeric now ie (storage sys0) = Inr (e, s1)"
    by (auto simp: post_expenses_db_def Let_def
             split: option.splits sum.splits error.splits prod.splits)
  show "status e = (case body_status body of Some st \<Rightarrow> st | None \<Rightarrow> ''pending'')"
    and "approvalNote e = body_approvalNote body"
    using DatabaseStorage_createExpense_row(1,2) [OF c] parse_keeps_status [OF p] by simp_all
qed

lemma self_approved_facts:
  "getUser (storage sys_default) 3 = Some user_sarah"
  "user_role user_sarah = ''employee''"
  "receiptUrlOf world_ok body_self_approved sys_default = (Inr [], sys_default)"
  "insertExpenseSchema_parse body_self_approved (calculatedAmount body_self_approved)
     user_sarah [] = Inr ie_self_approved"
  "DatabaseStorage_createExpense numeric_10_2 1750700006000 ie_self_approved (storage sys_default)
     = Inr (e_self_approved,
            snd (projr (DatabaseStorage_createExpense numeric_10_2 1750700006000
                          ie_self_approved (storage sys_default))))"
  "status e_self_approved = ''approved''"
  "approvalNote e_self_approved = Some ''self-approved''"
  "approvedByName e_self_approved = None"
  "body_status body_self_approved = Some ''approved''"
  "body_approvalNote body_self_approved = Some ''self-approved''"
  by code_simp+

text \<open>
  C3. Every submission should create an Expense with status pending, notificationSent
  false, the decision fields approvedBy, approvedByName, approvalDate and approvalNote
  null, the server's time as submissionDate and a fresh id.
  \<^verbatim>\<open>MemStorage.createExpense\<close> writes these values whatever the record says. The
  exported \<^verbatim>\<open>DatabaseStorage.createExpense\<close> does not: the insert schema lets
  \<^verbatim>\<open>status\<close> and \<^verbatim>\<open>approvalNote\<close> through and the insert keeps them. When Sarah
  Miller, an employee, submits a lunch with the status approved and a note of her own
  in the body, the answer is 201 with an expense of status approved that carries the
  note; \<^verbatim>\<open>MemStorage.createExpense\<close> makes the same record pending, without a note.
\<close>

theorem submitted_status_and_note_kept_from_body:
  "user_role user_sarah = ''employee''
   \<and> body_status body_self_approved = Some ''approved''
   \<and> body_approvalNote body_self_approved = Some ''self-approved''
   \<and> fst (post_expenses_db numeric_10_2 world_ok 1750700006000 3 body_self_approved sys_default)
       = JsonExpense 201 e_self_approved
   \<and> status e_self_approved = ''approved''
   \<and> approvalNote e_self_approved = Some ''self-approved''
   \<and> approvedByName e_self_approved = None
   \<and> status (fst (createExpense 1750700006000 ie_self_approved (storage sys_default))) = ''pending''
   \<and> approvalNote (fst (createExpense 1750700006000 ie_self_approved (storage sys_default))) = None"
proof -
  have a: "fst (post_expenses_db numeric_10_2 world_ok 1750700006000 3 body_self_approved
                  sys_default) = JsonExpense 201 e_self_approved"
    by (simp only: post_expenses_db_creates [OF self_approved_facts(1,3,4,5)] fst_conv)
  have b: "status (fst (createExpense 1750700006000 ie_self_approved (storage sys_default)))
             = ''pending''"
    "approvalNote (fst (createExpense 1750700006000 ie_self_approved (storage sys_default)))
             = None"
    by (simp_all only: createExpense_fields)
  show ?thesis
    by (intro conjI a b self_approved_facts(2,6,7,8,9,10))
qed

section \<open>Deciding an expense\<close>

text \<open>
  C4. A decide call by a user whose role is employee is answered with 403
  "Insufficient permissions" (the PermissionError); the store and the call log are
  as before.
\<close>

theorem decide_by_employee_forbidden:
  assumes "getUser (storage sys) userId = Some user" and "user_role user = ''employee''"
  shows "patch_expense_status w now userId i body sys
           = (JsonMessage 403 ''Insufficient permissions'', sys)"
  using assms by (simp add: patch_expense_status_def)

lemma sarah_is_employee:
  "getUser (storage sys_default) 3 = Some (the (getUser (storage sys_default) 3))"
  "user_role (the (getUser (storage sys_default) 3)) = ''employee''"
  by code_simp+

theorem decide_by_employee_forbidden_witness:
  "getUser (storage sys_default) 3 = Some (the (getUser (storage sys_default) 3))
   \<and> user_role (the (getUser (storage sys_default) 3)) = ''employee''
   \<and> patch_expense_status world_ok 1750700001000 3 1 (body_decide ''approved'' ''mine'') sys_default
       = (JsonMessage 403 ''Insufficient permissions'', sys_default)"
  using sarah_is_employee
    decide_by_employee_forbidden [OF sarah_is_employee, of world_ok 1750700001000 1
      "body_decide ''approved'' ''mine''"]
  by simp

lemma parse_verdict:
  "sb_status body = Some (verdict_text v) \<Longrightarrow>
   updateExpenseStatusSchema_parse body by byName =
     Inr \<lparr>ues_status = v, ues_approvalNote = sb_approvalNote body,
          ues_approvedBy = by, ues_approvedByName = byName\<rparr>"
  by (cases v) (simp_all add: updateExpenseStatusSchema_parse_def)

lemma patch_expense_status_decides:
  assumes "getUser (storage sys) userId = Some user"
    and "user_role user = ''approver'' \<or> user_role user = ''admin''"
    and "updateExpenseStatusSchema_parse body (user_id user) (user_name user) = Inr ud"
    and "fst (updateExpenseStatus now i ud (storage sys)) = Some e'"
  shows "patch_expense_status w now userId i body sys =
           (JsonExpense 200 e',
            snd (sendApprovalNotification w e'
                  (snd (sheets_updateExpenseStatus w e'
                         (sys\<lparr>storage := snd (updateExpenseStatus now i ud (storage sys))\<rparr>)))))"
  using assms by (auto simp: patch_expense_status_def Let_def)

lemma decided_record_stored:
  assumes "fst (updateExpenseStatus now i ud (storage sys)) = Some e'"
  shows "\<exists>b. getExpense (storage (snd (sendApprovalNotification w e'
                  (snd (sheets_updateExpenseStatus w e'
                         (sys\<lparr>storage := snd (updateExpenseStatus now i ud (storage sys))\<rparr>)))))) i
              = Some (e'\<lparr>notificationSent := b\<rparr>)"
proof -
  let ?s1 = "snd (updateExpenseStatus now i ud (storage sys))"
  have f: "notificationSent e' = False"
    using assms by (auto simp: updateExpenseStatus_result)
  have g: "getExpense ?s1 i = Some e'"
    using assms by (simp add: getExpense_updateExpenseStatus)
  have p: "applyPatch \<lparr>patch_sheetsRowNumber = None, patch_notificationSent = Some True\<rparr> e'
             = e'\<lparr>notificationSent := True\<rparr>"
    by (simp add: applyPatch_def)
  have "getExpense (snd (updateExpense (expense_id e')
            \<lparr>patch_sheetsRowNumber = None, patch_notificationSent = Some True\<rparr> ?s1)) i
          = Some (e'\<lparr>notificationSent := True\<rparr>)
        \<or> getExpense (snd (updateExpense (expense_id e')
            \<lparr>patch_sheetsRowNumber = None, patch_notificationSent = Some True\<rparr> ?s1)) i
          = Some (e'\<lparr>notificationSent := False\<rparr>)"
  proof (cases "i = expense_id e'")
    case True
    have "getExpense (snd (updateExpense i
            \<lparr>patch_sheetsRowNumber = None, patch_notificationSent = Some True\<rparr> ?s1)) i
          = Some (e'\<lparr>notificationSent := True\<rparr>)"
      unfolding getExpense_updateExpense g using p by simp
    then show ?thesis using True by simp
  next
    case False
    then show ?thesis using g f by (simp add: getExpense_updateExpense)
  qed
  moreover have "getExpense ?s1 i = Some (e'\<lparr>notificationSent := False\<rparr>)"
    using g f by simp
  ultimately show ?thesis
    by (auto simp: sendApprovalNotification_storage sheets_updateExpenseStatus_storage
             simp del: One_nat_def)
qed

text \<open>
  C1 (as the code has it). The decide operation does not look at the current status:
  for every stored expense, whether pending, approved or rejected, a decide call by an
  approver or an admin with a verdict of approved or rejected is answered with 200 and
  the expense with the new status, note, decider, decision time and notificationSent
  false written over the old ones, and the store holds that record (with the
  notification flag as the notifier left it). A second decide replaces the first.
\<close>

theorem decide_overwrites_any_status:
  assumes "getUser (storage sys) userId = Some user"
    and "user_role user = ''approver'' \<or> user_role user = ''admin''"
    and "sb_status body = Some (verdict_text v)"
    and "getExpense (storage sys) i = Some e"
  shows "fst (patch_expense_status w now userId i body sys) =
           JsonExpense 200 (e\<lparr>status := verdict_text v,
                               approvalNote := or_null (sb_approvalNote body),
                               approvedBy := Some (user_id user),
                               approvedByName := Some (user_name user),
                               approvalDate := Some now,
                               notificationSent := False\<rparr>)
         \<and> (\<exists>b. getExpense (storage (snd (patch_expense_status w now userId i body sys))) i =
                  Some (e\<lparr>status := verdict_text v,
                          approvalNote := or_null (sb_approvalNote body),
                          approvedBy := Some (user_id user),
                          approvedByName := Some (user_name user),
                          approvalDate := Some now,
                          notificationSent := b\<rparr>))"
proof -
  let ?ud = "\<lparr>ues_status = v, ues_approvalNote = sb_approvalNote body,
               ues_approvedBy = user_id user, ues_approvedByName = user_name user\<rparr>"
  let ?e' = "e\<lparr>status := verdict_text v,
               approvalNote := or_null (sb_approvalNote body),
               approvedBy := Some (user_id user),
               approvedByName := Some (user_name user),
               approvalDate := Some now,
               notificationSent := False\<rparr>"
  have parse: "updateExpenseStatusSchema_parse body (user_id user) (user_name user) = Inr ?ud"
    by (rule parse_verdict [OF assms(3)])
  have upd: "fst (updateExpenseStatus now i ?ud (storage sys)) = Some ?e'"
    using assms(4) by (simp add: updateExpenseStatus_result)
  note eq = patch_expense_status_decides [OF assms(1,2) parse upd, of w]
  obtain b where "getExpense (storage (snd (patch_expense_status w now userId i body sys))) i
                    = Some (?e'\<lparr>notificationSent := b\<rparr>)"
    using decided_record_stored [OF upd, of w] unfolding eq by auto
  then show ?thesis unfolding eq by auto
qed

lemma sys_approved_facts:
  "getUser (storage sys_approved) 2 = Some (the (getUser (storage sys_approved) 2))"
  "user_role (the (getUser (storage sys_approved) 2)) = ''approver''"
  "getExpense (storage sys_approved) 1 = Some (the (getExpense (storage sys_approved) 1))"
  "status (the (getExpense (storage sys_approved) 1)) = ''approved''"
  by code_simp+

theorem decide_overwrites_any_status_witness:
  "getUser (storage sys_approved) 2 = Some (the (getUser (storage sys_approved) 2))
   \<and> user_role (the (getUser (storage sys_approved) 2)) = ''approver''
   \<and> sb_status (body_decide ''rejected'' ''Changed my mind'') = Some (verdict_text Rejected)
   \<and> getExpense (storage sys_approved) 1 = Some (the (getExpense (storage sys_approved) 1))
   \<and> status (the (getExpense (storage sys_approved) 1)) = ''approved''
   \<and> map_option status (response_expense (fst (patch_expense_status world_ok 1750700009000 2 1
         (body_decide ''rejected'' ''Changed my mind'') sys_approved))) = Some ''rejected''"
proof -
  have b: "sb_status (body_decide ''rejected'' ''Changed my mind'') = Some (verdict_text Rejected)"
    by (simp add: body_decide_def)
  have r: "user_role (the (getUser (storage sys_approved) 2)) = ''approver''
           \<or> user_role (the (getUser (storage sys_approved) 2)) = ''admin''"
    using sys_approved_facts(2) by simp
  show ?thesis
    using decide_overwrites_any_status [OF sys_approved_facts(1) r b sys_approved_facts(3),
            of world_ok 1750700009000] sys_approved_facts b
    by simp
qed

text \<open>
  C1 as stated fails: expense 1 of the sample data, already approved by the finance
  manager, is decided again as rejected; the call is answered with 200 and the stored
  status changes from approved to rejected.
\<close>

theorem decide_twice_counterexample:
  "statusOf (storage sys_approved) 1 = Some ''approved''
   \<and> response_code (fst (patch_expense_status world_ok 1750700009000 2 1
        (body_decide ''rejected'' ''Changed my mind'') sys_approved)) = 200
   \<and> statusOf (storage (snd (patch_expense_status world_ok 1750700009000 2 1
        (body_decide ''rejected'' ''Changed my mind'') sys_approved))) 1 = Some ''rejected''"
  by code_simp

section \<open>The fan-out to the sheet and the notifier\<close>

lemma post_expenses_creates:
  assumes "getUser (storage sys) uid = Some user"
    and "receiptUrlOf w body sys = (Inr url, sys0)"
    and "insertExpenseSchema_parse body (calculatedAmount body) user url = Inr ie"
  shows "post_expenses w now uid body sys =
           (JsonExpense 201 (fst (createExpense now ie (storage sys0))),
            snd (sendExpenseSubmissionNotification w (fst (createExpense now ie (storage sys0)))
                  (snd (addExpense w (fst (createExpense now ie (storage sys0)))
                         (sys0\<lparr>storage := snd (createExpense now ie (storage sys0))\<rparr>)))))"
  using assms by (simp add: post_expenses_def Let_def)

lemma submit_survives_ledger_failure:
  assumes "getUser (storage sys) uid = Some user"
    and "receiptUrlOf w body sys = (Inr url, sys0)"
    and "insertExpenseSchema_parse body (calculatedAmount body) user url = Inr ie"
    and "e = fst (createExpense now ie (storage sys0))"
    and "fst (addExpense w e (sys0\<lparr>storage := snd (createExpense now ie (storage sys0))\<rparr>)) = Inl err"
  shows "fst (post_expenses w now uid body sys) = JsonExpense 201 e"
    and "getExpense (storage (snd (post_expenses w now uid body sys))) (expense_id e) = Some e"
    and "snd (post_expenses w now uid body sys) =
           snd (sendExpenseSubmissionNotification w e
                 (snd (addExpense w e (sys0\<lparr>storage := snd (createExpense now ie (storage sys0))\<rparr>))))"
    and "expenseDate e \<noteq> InvalidDate \<Longrightarrow>
           \<exists>r. (GmailSend ''manager@agency.com'' (SubmissionMail e), r)
                \<in> set (calls (snd (post_expenses w now uid body sys)))"
proof -
  let ?sys1 = "sys0\<lparr>storage := snd (createExpense now ie (storage sys0))\<rparr>"
  note eq = post_expenses_creates [OF assms(1-3), of now, folded assms(4)]
  show "fst (post_expenses w now uid body sys) = JsonExpense 201 e"
    and "snd (post_expenses w now uid body sys) =
           snd (sendExpenseSubmissionNotification w e (snd (addExpense w e ?sys1)))"
    unfolding eq by simp_all
  have "storage (snd (post_expenses w now uid body sys)) = storage ?sys1"
    unfolding eq using addExpense_throws_storage [OF assms(5)]
    by (simp add: sendExpenseSubmissionNotification_storage)
  then show "getExpense (storage (snd (post_expenses w now uid body sys))) (expense_id e) = Some e"
    by (simp add: assms(4) getExpense_createExpense expense_id_createExpense)
  show "\<exists>r. (GmailSend ''manager@agency.com'' (SubmissionMail e), r)
                \<in> set (calls (snd (post_expenses w now uid body sys)))"
    if "expenseDate e \<noteq> InvalidDate"
    unfolding eq using sendExpenseSubmissionNotification_first_mail [OF that, of w "snd (addExpense w e ?sys1)"]
    by auto
qed

lemma decide_survives_ledger_failure:
  assumes "getUser (storage sys) uid = Some user"
    and "user_role user = ''approver'' \<or> user_role user = ''admin''"
    and "updateExpenseStatusSchema_parse body (user_id user) (user_name user) = Inr ud"
    and "fst (updateExpenseStatus now i ud (storage sys)) = Some e"
  shows "fst (patch_expense_status w now uid i body sys) = JsonExpense 200 e"
    and "\<exists>b. getExpense (storage (snd (patch_expense_status w now uid i body sys))) i
               = Some (e\<lparr>notificationSent := b\<rparr>)"
    and "snd (patch_expense_status w now uid i body sys) =
           snd (sendApprovalNotification w e
                 (snd (sheets_updateExpenseStatus w e
                        (sys\<lparr>storage := snd (updateExpenseStatus now i ud (storage sys))\<rparr>))))"
    and "expenseDate e \<noteq> InvalidDate \<Longrightarrow>
           \<exists>r. (GmailSend (employeeEmail e) (ApprovalMail e), r)
                \<in> set (calls (snd (patch_expense_status w now uid i body sys)))"
proof -
  note eq = patch_expense_status_decides [OF assms, of w]
  show "fst (patch_expense_status w now uid i body sys) = JsonExpense 200 e"
    and "snd (patch_expense_status w now uid i body sys) =
           snd (sendApprovalNotification w e
                 (snd (sheets_updateExpenseStatus w e
                        (sys\<lparr>storage := snd (updateExpenseStatus now i ud (storage sys))\<rparr>))))"
    unfolding eq by simp_all
  show "\<exists>b. getExpense (storage (snd (patch_expense_status w now uid i body sys))) i
               = Some (e\<lparr>notificationSent := b\<rparr>)"
    unfolding eq using decided_record_stored [OF assms(4), of w] by simp
  show "\<exists>r. (GmailSend (employeeEmail e) (ApprovalMail e), r)
                \<in> set (calls (snd (patch_expense_status w now uid i body sys)))"
    if "expenseDate e \<noteq> InvalidDate"
    unfolding eq using that by (auto simp: sendApprovalNotification_calls)
qed

text \<open>
  C2. Whenever the sheet sink throws, the notifier sink is still invoked and the
  triggering operation still succeeds with the record stored. For a submission that
  passes the schema (the user exists, a receipt upload, if any, succeeded) and whose
  \<^verbatim>\<open>sheetsService.addExpense\<close> throws: the answer is 201 with the created expense,
  the store holds that expense, \<^verbatim>\<open>sendExpenseSubmissionNotification\<close> runs on the
  state the failed sink left, and (the expense date being valid) the mail to the first
  approver is attempted. For a decide call by an approver or admin on a stored expense
  whose \<^verbatim>\<open>sheetsService.updateExpenseStatus\<close> throws: the answer is 200 with the
  updated expense, the store holds it, \<^verbatim>\<open>sendApprovalNotification\<close> runs, and the
  mail to the submitter is attempted.
\<close>

theorem sink_failure_never_fails_the_operation:
  "(getUser (storage sys) uid = Some user
      \<and> receiptUrlOf w body sys = (Inr url, sys0)
      \<and> insertExpenseSchema_parse body (calculatedAmount body) user url = Inr ie
      \<and> e = fst (createExpense now ie (storage sys0))
      \<and> fst (addExpense w e (sys0\<lparr>storage := snd (createExpense now ie (storage sys0))\<rparr>)) = Inl err
    \<longrightarrow> fst (post_expenses w now uid body sys) = JsonExpense 201 e
      \<and> getExpense (storage (snd (post_expenses w now uid body sys))) (expense_id e) = Some e
      \<and> snd (post_expenses w now uid body sys) =
           snd (sendExpenseSubmissionNotification w e
                 (snd (addExpense w e (sys0\<lparr>storage := snd (createExpense now ie (storage sys0))\<rparr>))))
      \<and> (expenseDate e \<noteq> InvalidDate \<longrightarrow>
           (\<exists>r. (GmailSend ''manager@agency.com'' (SubmissionMail e), r)
                \<in> set (calls (snd (post_expenses w now uid body sys))))))
   \<and> (getUser (storage sys') uid' = Some user'
      \<and> (user_role user' = ''approver'' \<or> user_role user' = ''admin'')
      \<and> updateExpenseStatusSchema_parse body' (user_id user') (user_name user') = Inr ud
      \<and> fst (updateExpenseStatus now' i ud (storage sys')) = Some e'
      \<and> fst (sheets_updateExpenseStatus w' e'
                (sys'\<lparr>storage := snd (updateExpenseStatus now' i ud (storage sys'))\<rparr>)) = Inl err'
    \<longrightarrow> fst (patch_expense_status w' now' uid' i body' sys') = JsonExpense 200 e'
      \<and> (\<exists>b. getExpense (storage (snd (patch_expense_status w' now' uid' i body' sys'))) i
               = Some (e'\<lparr>notificationSent := b\<rparr>))
      \<and> snd (patch_expense_status w' now' uid' i body' sys') =
           snd (sendApprovalNotification w' e'
                 (snd (sheets_updateExpenseStatus w' e'
                        (sys'\<lparr>storage := snd (updateExpenseStatus now' i ud (storage sys'))\<rparr>))))
      \<and> (expenseDate e' \<noteq> InvalidDate \<longrightarrow>
           (\<exists>r. (GmailSend (employeeEmail e') (ApprovalMail e'), r)
                \<in> set (calls (snd (patch_expense_status w' now' uid' i body' sys'))))))"
proof (intro conjI impI; (elim conjE)?)
  assume h: "getUser (storage sys) uid = Some user"
    "receiptUrlOf w body sys = (Inr url, sys0)"
    "insertExpenseSchema_parse body (calculatedAmount body) user url = Inr ie"
    "e = fst (createExpense now ie (storage sys0))"
    "fst (addExpense w e (sys0\<lparr>storage := snd (createExpense now ie (storage sys0))\<rparr>)) = Inl err"
  show "fst (post_expenses w now uid body sys) = JsonExpense 201 e"
    by (rule submit_survives_ledger_failure(1) [OF h])
  show "getExpense (storage (snd (post_expenses w now uid body sys))) (expense_id e) = Some e"
    by (rule submit_survives_ledger_failure(2) [OF h])
  show "snd (post_expenses w now uid body sys) =
           snd (sendExpenseSubmissionNotification w e
                 (snd (addExpense w e (sys0\<lparr>storage := snd (createExpense now ie (storage sys0))\<rparr>))))"
    by (rule submit_survives_ledger_failure(3) [OF h])
  show "\<exists>r. (GmailSend ''manager@agency.com'' (SubmissionMail e), r)
                \<in> set (calls (snd (post_expenses w now uid body sys)))"
    if "expenseDate e \<noteq> InvalidDate"
    by (rule submit_survives_ledger_failure(4) [OF h that])
next
  assume h: "getUser (storage sys') uid' = Some user'"
    "user_role user' = ''approver'' \<or> user_role user' = ''admin''"
    "updateExpenseStatusSchema_parse body' (user_id user') (user_name user') = Inr ud"
    "fst (updateExpenseStatus now' i ud (storage sys')) = Some e'"
  show "fst (patch_expense_status w' now' uid' i body' sys') = JsonExpense 200 e'"
    by (rule decide_survives_ledger_failure(1) [OF h])
  show "\<exists>b. getExpense (storage (snd (patch_expense_status w' now' uid' i body' sys'))) i
               = Some (e'\<lparr>notificationSent := b\<rparr>)"
    by (rule decide_survives_ledger_failure(2) [OF h])
  show "snd (patch_expense_status w' now' uid' i body' sys') =
           snd (sendApprovalNotification w' e'
                 (snd (sheets_updateExpenseStatus w' e'
                        (sys'\<lparr>storage := snd (updateExpenseStatus now' i ud (storage sys'))\<rparr>))))"
    by (rule decide_survives_ledger_failure(3) [OF h])
  show "\<exists>r. (GmailSend (employeeEmail e') (ApprovalMail e'), r)
                \<in> set (calls (snd (patch_expense_status w' now' uid' i body' sys')))"
    if "expenseDate e' \<noteq> InvalidDate"
    by (rule decide_survives_ledger_failure(4) [OF h that])
qed

lemma submit_sample_facts:
  "getUser (storage sys_default) 3 = Some user_sarah"
  "receiptUrlOf world_ledger_down (body_manual ''156.50'') sys_default = (Inr [], sys_default)"
  "insertExpenseSchema_parse (body_manual ''156.50'') (calculatedAmount (body_manual ''156.50''))
     user_sarah [] = Inr ie_lunch"
  "fst (addExpense world_ledger_down e_lunch
         (sys_default\<lparr>storage := snd (createExpense 1750700006000 ie_lunch (storage sys_default))\<rparr>))
     = Inl ExternalError"
  "expenseDate e_lunch \<noteq> InvalidDate"
  by code_simp+

lemma decide_sample_facts:
  "getUser (storage sys_synced) 2 = Some user_manager"
  "user_role user_manager = ''approver''"
  "updateExpenseStatusSchema_parse (body_decide ''approved'' ''ok'')
     (user_id user_manager) (user_name user_manager) = Inr ud_approve"
  "fst (updateExpenseStatus 1750700007000 1 ud_approve (storage sys_synced)) = Some e_decided"
  "fst (sheets_updateExpenseStatus world_ledger_down e_decided
         (sys_synced\<lparr>storage := snd (updateExpenseStatus 1750700007000 1 ud_approve (storage sys_synced))\<rparr>))
     = Inl ExternalError"
  "expenseDate e_decided \<noteq> InvalidDate"
  by code_simp+

theorem sink_failure_never_fails_the_operation_witness:
  "(getUser (storage sys_default) 3 = Some user_sarah
    \<and> receiptUrlOf world_ledger_down (body_manual ''156.50'') sys_default = (Inr [], sys_default)
    \<and> insertExpenseSchema_parse (body_manual ''156.50'') (calculatedAmount (body_manual ''156.50''))
         user_sarah [] = Inr ie_lunch
    \<and> e_lunch = fst (createExpense 1750700006000 ie_lunch (storage sys_default))
    \<and> fst (addExpense world_ledger_down e_lunch
         (sys_default\<lparr>storage := snd (createExpense 1750700006000 ie_lunch (storage sys_default))\<rparr>))
         = Inl ExternalError)
   \<and> fst (post_expenses world_ledger_down 1750700006000 3 (body_manual ''156.50'') sys_default)
        = JsonExpense 201 e_lunch
   \<and> getExpense (storage (snd (post_expenses world_ledger_down 1750700006000 3
          (body_manual ''156.50'') sys_default))) (expense_id e_lunch) = Some e_lunch
   \<and> (\<exists>r. (GmailSend ''manager@agency.com'' (SubmissionMail e_lunch), r)
          \<in> set (calls (snd (post_expenses world_ledger_down 1750700006000 3
                               (body_manual ''156.50'') sys_default))))
   \<and> (getUser (storage sys_synced) 2 = Some user_manager
    \<and> (user_role user_manager = ''approver'' \<or> user_role user_manager = ''admin'')
    \<and> updateExpenseStatusSchema_parse (body_decide ''approved'' ''ok'')
         (user_id user_manager) (user_name user_manager) = Inr ud_approve
    \<and> fst (updateExpenseStatus 1750700007000 1 ud_approve (storage sys_synced)) = Some e_decided
    \<and> fst (sheets_updateExpenseStatus world_ledger_down e_decided
         (sys_synced\<lparr>storage := snd (updateExpenseStatus 1750700007000 1 ud_approve (storage sys_synced))\<rparr>))
         = Inl ExternalError)
   \<and> fst (patch_expense_status world_ledger_down 1750700007000 2 1
             (body_decide ''approved'' ''ok'') sys_synced) = JsonExpense 200 e_decided
   \<and> (\<exists>r. (GmailSend (employeeEmail e_decided) (ApprovalMail e_decided), r)
          \<in> set (calls (snd (patch_expense_status world_ledger_down 1750700007000 2 1
                               (body_decide ''approved'' ''ok'') sys_synced))))"
  using sink_failure_never_fails_the_operation
          [of sys_default 3 user_sarah world_ledger_down "body_manual ''156.50''" "[]" sys_default
              ie_lunch e_lunch 1750700006000 ExternalError
              sys_synced 2 user_manager "body_decide ''approved'' ''ok''" ud_approve
              1750700007000 1 e_decided world_ledger_down ExternalError]
        submit_sample_facts decide_sample_facts e_lunch_def
  by blast

section \<open>The notification flag\<close>

lemma notificationSentOf_updateExpense_flag:
  "notificationSentOf (snd (updateExpense j
       \<lparr>patch_sheetsRowNumber = None, patch_notificationSent = Some True\<rparr> s)) i =
     (if i = j then map_option (\<lambda>_. True) (notificationSentOf s i) else notificationSentOf s i)"
  by (simp add: notificationSentOf_def getExpense_updateExpense applyPatch_def
        option.map_comp comp_def)

lemma notificationSentOf_updateExpense_row:
  "notificationSentOf (snd (updateExpense j
       \<lparr>patch_sheetsRowNumber = Some n, patch_notificationSent = None\<rparr> s)) i = notificationSentOf s i"
  by (simp add: notificationSentOf_def getExpense_updateExpense applyPatch_def
        option.map_comp comp_def)

lemma notificationSentOf_sendApprovalNotification:
  "notificationSentOf (storage (snd (sendApprovalNotification w e sys))) i =
     (if i = expense_id e \<and> expenseDate e \<noteq> InvalidDate
         \<and> w (calls sys) (GmailSend (employeeEmail e) (ApprovalMail e)) \<noteq> Throws
      then map_option (\<lambda>_. True) (notificationSentOf (storage sys) i)
      else notificationSentOf (storage sys) i)"
  by (simp add: sendApprovalNotification_storage notificationSentOf_updateExpense_flag)

lemma notificationSentOf_createExpense:
  "notificationSentOf (snd (createExpense now ie s)) i =
     (if i = currentExpenseId s then Some False else notificationSentOf s i)"
  by (simp add: notificationSentOf_def getExpense_createExpense createExpense_fields)

lemma notificationSentOf_updateExpenseStatus:
  "notificationSentOf (snd (updateExpenseStatus now j u s)) i =
     (if i = j then map_option (\<lambda>_. False) (notificationSentOf s i) else notificationSentOf s i)"
  by (simp add: notificationSentOf_def getExpense_updateExpenseStatus updateExpenseStatus_result
        option.map_comp comp_def)

lemma notificationSentOf_addExpense:
  "notificationSentOf (storage (snd (addExpense w e sys))) i = notificationSentOf (storage sys) i"
  by (simp add: addExpense_storage notificationSentOf_updateExpense_row split: outcome.splits)

lemma patch_200_cases:
  assumes "fst (patch_expense_status w now uid i body sys) = JsonExpense 200 e"
  shows "\<exists>user ud. getUser (storage sys) uid = Some user
           \<and> (user_role user = ''approver'' \<or> user_role user = ''admin'')
           \<and> updateExpenseStatusSchema_parse body (user_id user) (user_name user) = Inr ud
           \<and> fst (updateExpenseStatus now i ud (storage sys)) = Some e"
  using assms
  by (auto simp: patch_expense_status_def Let_def
           split: option.splits if_splits sum.splits error.splits)

lemma post_201_cases:
  assumes "fst (post_expenses w now uid body sys) = JsonExpense 201 e"
  shows "\<exists>user url sys0 ie. getUser (storage sys) uid = Some user
           \<and> receiptUrlOf w body sys = (Inr url, sys0)
           \<and> insertExpenseSchema_parse body (calculatedAmount body) user url = Inr ie
           \<and> e = fst (createExpense now ie (storage sys0))"
proof -
  obtain r sys0 where ru: "receiptUrlOf w body sys = (r, sys0)"
    by (cases "receiptUrlOf w body sys")
  show ?thesis
    using assms ru
    by (auto simp: post_expenses_def Let_def split: option.splits sum.splits error.splits)
qed

lemma decide_flag_when_mail_throws:
  assumes "fst (patch_expense_status w now uid i body sys) = JsonExpense 200 e"
    and "\<forall>cl to m. w cl (GmailSend to m) = Throws"
  shows "notificationSentOf (storage (snd (patch_expense_status w now uid i body sys))) i = Some False"
proof -
  obtain user ud where h: "getUser (storage sys) uid = Some user"
      "user_role user = ''approver'' \<or> user_role user = ''admin''"
      "updateExpenseStatusSchema_parse body (user_id user) (user_name user) = Inr ud"
      "fst (updateExpenseStatus now i ud (storage sys)) = Some e"
    using patch_200_cases [OF assms(1)] by blast
  obtain y where y: "getExpense (storage sys) i = Some y"
    using h(4) by (auto simp: updateExpenseStatus_result)
  have before: "notificationSentOf (storage sys) i = Some (notificationSent y)"
    using y by (simp add: notificationSentOf_def)
  have mail: "w cl (GmailSend to m) = Throws" for cl to m
    using assms(2) by blast
  show ?thesis
    unfolding patch_expense_status_decides [OF h, of w]
    by (simp add: notificationSentOf_sendApprovalNotification mail
          sheets_updateExpenseStatus_storage notificationSentOf_updateExpenseStatus before)
qed

lemma submit_flag_stays_false:
  assumes "fst (post_expenses w now uid body sys) = JsonExpense 201 e"
  shows "notificationSentOf (storage (snd (post_expenses w now uid body sys))) (expense_id e) = Some False"
proof -
  obtain user url sys0 ie where h: "getUser (storage sys) uid = Some user"
      "receiptUrlOf w body sys = (Inr url, sys0)"
      "insertExpenseSchema_parse body (calculatedAmount body) user url = Inr ie"
      and e: "e = fst (createExpense now ie (storage sys0))"
    using post_201_cases [OF assms] by blast
  show ?thesis
    unfolding post_expenses_creates [OF h, of now] e
    by (simp add: sendExpenseSubmissionNotification_storage notificationSentOf_addExpense
          notificationSentOf_createExpense expense_id_createExpense)
qed

text \<open>
  C10. notificationSent becomes true only by \<^verbatim>\<open>sendApprovalNotification\<close>, for the
  expense notified, and only when the mail to the submitter was sent without an error;
  when the mail service throws (or the mail cannot be written) the store is left as it
  was, so after a decide the flag is still false. Creating an expense and deciding one
  write false; the sheet sink and the submission notification to the approvers leave
  the flag alone, so after a submission the flag of the new expense is false.
\<close>

theorem notificationSent_only_after_approval_mail:
  "notificationSentOf (storage (snd (sendApprovalNotification w e sys))) i =
     (if i = expense_id e \<and> expenseDate e \<noteq> InvalidDate
         \<and> w (calls sys) (GmailSend (employeeEmail e) (ApprovalMail e)) \<noteq> Throws
      then map_option (\<lambda>_. True) (notificationSentOf (storage sys) i)
      else notificationSentOf (storage sys) i)
   \<and> (w (calls sys) (GmailSend (employeeEmail e) (ApprovalMail e)) = Throws
        \<longrightarrow> storage (snd (sendApprovalNotification w e sys)) = storage sys)
   \<and> storage (snd (sendExpenseSubmissionNotification w e sys)) = storage sys
   \<and> notificationSentOf (snd (createExpense now ie s)) i =
       (if i = currentExpenseId s then Some False else notificationSentOf s i)
   \<and> notificationSentOf (snd (updateExpenseStatus now j u s)) i =
       (if i = j then map_option (\<lambda>_. False) (notificationSentOf s i) else notificationSentOf s i)
   \<and> notificationSentOf (storage (snd (addExpense w e sys))) i = notificationSentOf (storage sys) i
   \<and> storage (snd (sheets_updateExpenseStatus w e sys)) = storage sys
   \<and> (fst (patch_expense_status w' now uid j body sys') = JsonExpense 200 e'
        \<and> (\<forall>cl to m. w' cl (GmailSend to m) = Throws)
        \<longrightarrow> notificationSentOf (storage (snd (patch_expense_status w' now uid j body sys'))) j
              = Some False)
   \<and> (fst (post_expenses w now uid' body' sys) = JsonExpense 201 e''
        \<longrightarrow> notificationSentOf (storage (snd (post_expenses w now uid' body' sys))) (expense_id e'')
              = Some False)"
proof (intro conjI impI)
  show "notificationSentOf (storage (snd (sendApprovalNotification w e sys))) i =
     (if i = expense_id e \<and> expenseDate e \<noteq> InvalidDate
         \<and> w (calls sys) (GmailSend (employeeEmail e) (ApprovalMail e)) \<noteq> Throws
      then map_option (\<lambda>_. True) (notificationSentOf (storage sys) i)
      else notificationSentOf (storage sys) i)"
    by (rule notificationSentOf_sendApprovalNotification)
  show "storage (snd (sendApprovalNotification w e sys)) = storage sys"
    if "w (calls sys) (GmailSend (employeeEmail e) (ApprovalMail e)) = Throws"
    using that by (simp add: sendApprovalNotification_storage)
  show "storage (snd (sendExpenseSubmissionNotification w e sys)) = storage sys"
    by (rule sendExpenseSubmissionNotification_storage)
  show "notificationSentOf (snd (createExpense now ie s)) i =
       (if i = currentExpenseId s then Some False else notificationSentOf s i)"
    by (rule notificationSentOf_createExpense)
  show "notificationSentOf (snd (updateExpenseStatus now j u s)) i =
       (if i = j then map_option (\<lambda>_. False) (notificationSentOf s i) else notificationSentOf s i)"
    by (rule notificationSentOf_updateExpenseStatus)
  show "notificationSentOf (storage (snd (addExpense w e sys))) i = notificationSentOf (storage sys) i"
    by (rule notificationSentOf_addExpense)
  show "storage (snd (sheets_updateExpenseStatus w e sys)) = storage sys"
    by (rule sheets_updateExpenseStatus_storage)
  show "notificationSentOf (storage (snd (patch_expense_status w' now uid j body sys'))) j = Some False"
    if "fst (patch_expense_status w' now uid j body sys') = JsonExpense 200 e'
        \<and> (\<forall>cl to m. w' cl (GmailSend to m) = Throws)"
    using decide_flag_when_mail_throws [of w' now uid j body sys' e'] that by blast
  show "notificationSentOf (storage (snd (post_expenses w now uid' body' sys))) (expense_id e'') = Some False"
    if "fst (post_expenses w now uid' body' sys) = JsonExpense 201 e''"
    by (rule submit_flag_stays_false [OF that])
qed

lemma mail_down_facts:
  "fst (patch_expense_status world_mail_down 1750700007000 2 1 (body_decide ''approved'' ''ok'')
         sys_default) = JsonExpense 200 e_decided_mail_down"
  "fst (post_expenses world_mail_down 1750700007000 3 (body_manual ''156.50'') sys_default)
     = JsonExpense 201 e_created_mail_down"
  "expense_id e_created_mail_down = 4"
  by code_simp+

lemma world_mail_down_throws: "world_mail_down cl (GmailSend to m) = Throws"
  by (simp add: world_mail_down_def)

theorem notificationSent_only_after_approval_mail_witness:
  "world_mail_down (calls sys_default)
       (GmailSend (employeeEmail e_decided_mail_down) (ApprovalMail e_decided_mail_down)) = Throws
   \<and> storage (snd (sendApprovalNotification world_mail_down e_decided_mail_down sys_default))
       = storage sys_default
   \<and> fst (patch_expense_status world_mail_down 1750700007000 2 1 (body_decide ''approved'' ''ok'')
            sys_default) = JsonExpense 200 e_decided_mail_down
   \<and> (\<forall>cl to m. world_mail_down cl (GmailSend to m) = Throws)
   \<and> notificationSentOf (storage (snd (patch_expense_status world_mail_down 1750700007000 2 1
          (body_decide ''approved'' ''ok'') sys_default))) 1 = Some False
   \<and> fst (post_expenses world_mail_down 1750700007000 3 (body_manual ''156.50'') sys_default)
       = JsonExpense 201 e_created_mail_down
   \<and> notificationSentOf (storage (snd (post_expenses world_mail_down 1750700007000 3
          (body_manual ''156.50'') sys_default))) 4 = Some False"
  using notificationSent_only_after_approval_mail
          [of world_mail_down e_decided_mail_down sys_default 1 1750700007000 insert_sample
              "storage sys_default" 1 ud_approve world_mail_down 2
              "body_decide ''approved'' ''ok''" sys_default e_decided_mail_down
              3 "body_manual ''156.50''" e_created_mail_down]
        mail_down_facts world_mail_down_throws
  by metis

section \<open>Synchronising the sheet\<close>

lemma appended_append [simp]: "appended (xs @ ys) = appended xs @ appended ys"
  by (simp add: appended_def)

lemma appends_of_append [simp]: "appends_of (xs @ ys) i = appends_of xs i + appends_of ys i"
  by (simp add: appends_of_def)

lemma appended_single:
  "appended [(c, r)] = (case (c, r) of (SheetsAppend e, Returns x) \<Rightarrow> [e] | _ \<Rightarrow> [])"
  by (cases c; cases r) (simp_all add: appended_def)

lemma appends_of_addExpense:
  "appends_of (calls (snd (addExpense w e sys))) i =
     appends_of (calls sys) i +
       (if expense_id e = i \<and> expenseDate e \<noteq> InvalidDate
           \<and> w (calls sys) (SheetsAppend e) \<noteq> Throws then 1 else 0)"
  by (cases "w (calls sys) (SheetsAppend e)")
     (simp_all add: addExpense_calls appends_of_def appended_def)

lemma getExpense_addExpense_None:
  "(getExpense (storage (snd (addExpense w e sys))) i = None) = (getExpense (storage sys) i = None)"
  by (simp add: addExpense_storage getExpense_updateExpense split: outcome.splits)

lemma js_positive_truthy: "js_positive n \<Longrightarrow> js_truthy n"
  by (cases n) (simp_all add: js_positive_def js_truthy_def)

lemma synced_updateExpense_row:
  assumes "js_positive n"
  shows "synced s \<subseteq> synced (snd (updateExpense j
            \<lparr>patch_sheetsRowNumber = Some n, patch_notificationSent = None\<rparr> s))"
    and "getExpense s j \<noteq> None \<Longrightarrow> j \<in> synced (snd (updateExpense j
            \<lparr>patch_sheetsRowNumber = Some n, patch_notificationSent = None\<rparr> s))"
  using js_positive_truthy [OF assms]
  by (auto simp: synced_def getExpense_updateExpense applyPatch_def opt_truthy_def)

lemma synced_addExpense: "synced (storage sys) \<subseteq> synced (storage (snd (addExpense w e sys)))"
  using synced_updateExpense_row(1)
  by (auto simp: addExpense_storage split: outcome.splits)

lemma synced_after_append:
  assumes "rows_numbered w" and "getExpense (storage sys) (expense_id e) \<noteq> None"
    and "expenseDate e \<noteq> InvalidDate" and "w (calls sys) (SheetsAppend e) \<noteq> Throws"
  shows "expense_id e \<in> synced (storage (snd (addExpense w e sys)))"
proof -
  obtain r where r: "w (calls sys) (SheetsAppend e) = Returns r"
    using assms(4) by (cases "w (calls sys) (SheetsAppend e)") auto
  then have "js_positive (rowNumberOf r)"
    using assms(1) by (auto simp: rows_numbered_def)
  then show ?thesis
    using synced_updateExpense_row(2) [of "rowNumberOf r" "storage sys" "expense_id e"] assms(2,3) r
    by (simp add: addExpense_storage)
qed

lemma store_inv_addExpense:
  "store_inv (storage sys) \<Longrightarrow> store_inv (storage (snd (addExpense w e sys)))"
  by (simp add: addExpense_storage store_inv_updateExpense split: outcome.splits)

lemma syncLoop_count_upper:
  "appends_of (calls (snd (syncLoop w es sys))) i \<le>
     appends_of (calls sys) i
       + length (filter (\<lambda>e. expense_id e = i \<and> \<not> opt_truthy (sheetsRowNumber e)) es)"
proof (induction es arbitrary: sys)
  case Nil
  then show ?case by simp
next
  case (Cons e es)
  show ?case
  proof (cases "opt_truthy (sheetsRowNumber e)")
    case True
    then show ?thesis using Cons.IH [of sys] by simp
  next
    case False
    obtain r sys1 where a: "addExpense w e sys = (r, sys1)"
      by (cases "addExpense w e sys")
    have c: "appends_of (calls sys1) i \<le> appends_of (calls sys) i + (if expense_id e = i then 1 else 0)"
      using appends_of_addExpense [of w e sys i] a by simp
    show ?thesis
    proof (cases r)
      case (Inl err)
      then show ?thesis using False a c by auto
    next
      case (Inr n)
      then show ?thesis using False a c Cons.IH [of sys1] by auto
    qed
  qed
qed

lemma syncLoop_count_lower:
  "appends_of (calls sys) i \<le> appends_of (calls (snd (syncLoop w es sys))) i"
proof (induction es arbitrary: sys)
  case Nil
  then show ?case by simp
next
  case (Cons e es)
  show ?case
  proof (cases "opt_truthy (sheetsRowNumber e)")
    case True
    then show ?thesis using Cons.IH [of sys] by simp
  next
    case False
    obtain r sys1 where a: "addExpense w e sys = (r, sys1)"
      by (cases "addExpense w e sys")
    have c: "appends_of (calls sys) i \<le> appends_of (calls sys1) i"
      using appends_of_addExpense [of w e sys i] a by simp
    show ?thesis
    proof (cases r)
      case (Inl err)
      then show ?thesis using False a c by auto
    next
      case (Inr n)
      then show ?thesis using False a c Cons.IH [of sys1] by (auto intro: order_trans)
    qed
  qed
qed

lemma syncLoop_synced_mono:
  "synced (storage sys) \<subseteq> synced (storage (snd (syncLoop w es sys)))"
proof (induction es arbitrary: sys)
  case Nil
  then show ?case by simp
next
  case (Cons e es)
  show ?case
  proof (cases "opt_truthy (sheetsRowNumber e)")
    case True
    then show ?thesis using Cons.IH [of sys] by simp
  next
    case False
    obtain r sys1 where a: "addExpense w e sys = (r, sys1)"
      by (cases "addExpense w e sys")
    have c: "synced (storage sys) \<subseteq> synced (storage sys1)"
      using synced_addExpense [of sys w e] a by simp
    show ?thesis
    proof (cases r)
      case (Inl err)
      then show ?thesis using False a c by auto
    next
      case (Inr n)
      then show ?thesis using False a c Cons.IH [of sys1] by auto
    qed
  qed
qed

lemma syncLoop_store_inv:
  "store_inv (storage sys) \<Longrightarrow> store_inv (storage (snd (syncLoop w es sys)))"
proof (induction es arbitrary: sys)
  case Nil
  then show ?case by simp
next
  case (Cons e es)
  show ?case
  proof (cases "opt_truthy (sheetsRowNumber e)")
    case True
    then show ?thesis using Cons by simp
  next
    case False
    obtain r sys1 where a: "addExpense w e sys = (r, sys1)"
      by (cases "addExpense w e sys")
    have c: "store_inv (storage sys1)"
      using store_inv_addExpense [OF Cons.prems, of w e] a by simp
    show ?thesis
    proof (cases r)
      case (Inl err)
      then show ?thesis using False a c by auto
    next
      case (Inr n)
      then show ?thesis using False a c Cons.IH [of sys1] by auto
    qed
  qed
qed

lemma syncLoop_appended_is_synced:
  assumes "rows_numbered w"
    and "\<forall>e \<in> set es. getExpense (storage sys) (expense_id e) \<noteq> None"
    and "appends_of (calls sys) i < appends_of (calls (snd (syncLoop w es sys))) i"
  shows "i \<in> synced (storage (snd (syncLoop w es sys)))"
  using assms(2,3)
proof (induction es arbitrary: sys)
  case Nil
  then show ?case by simp
next
  case (Cons e es)
  show ?case
  proof (cases "opt_truthy (sheetsRowNumber e)")
    case True
    then show ?thesis using Cons.IH [of sys] Cons.prems by simp
  next
    case False
    obtain r sys1 where a: "addExpense w e sys = (r, sys1)"
      by (cases "addExpense w e sys")
    have keys: "\<forall>x \<in> set es. getExpense (storage sys1) (expense_id x) \<noteq> None"
      using Cons.prems(1) getExpense_addExpense_None [of w e sys] a by simp
    have cnt: "appends_of (calls sys1) i =
         appends_of (calls sys) i +
           (if expense_id e = i \<and> expenseDate e \<noteq> InvalidDate
               \<and> w (calls sys) (SheetsAppend e) \<noteq> Throws then 1 else 0)"
      using appends_of_addExpense [of w e sys i] a by simp
    have here: "i \<in> synced (storage sys1)"
      if "appends_of (calls sys) i < appends_of (calls sys1) i"
    proof -
      from that cnt have h: "expense_id e = i" "expenseDate e \<noteq> InvalidDate"
          "w (calls sys) (SheetsAppend e) \<noteq> Throws"
        by (auto split: if_splits)
      have "getExpense (storage sys) (expense_id e) \<noteq> None"
        using Cons.prems(1) by simp
      then show ?thesis
        using synced_after_append [OF assms(1) _ h(2,3)] a h(1) by simp
    qed
    show ?thesis
    proof (cases r)
      case (Inl err)
      then show ?thesis using False a Cons.prems(2) here by simp
    next
      case (Inr n)
      then have fin: "snd (syncLoop w (e # es) sys) = snd (syncLoop w es sys1)"
        using False a by simp
      show ?thesis
      proof (cases "appends_of (calls sys) i < appends_of (calls sys1) i")
        case True
        then show ?thesis
          using here syncLoop_synced_mono [of sys1 w es] fin by auto
      next
        case False
        then have "appends_of (calls sys1) i < appends_of (calls (snd (syncLoop w es sys1))) i"
          using Cons.prems(2) cnt fin by (auto split: if_splits)
        then show ?thesis using Cons.IH [OF keys] fin by simp
      qed
    qed
  qed
qed

lemma filter_by_key_at_most_one:
  "distinct (map f xs) \<Longrightarrow> length (filter (\<lambda>x. f x = i \<and> P x) xs) \<le> 1"
proof (induction xs)
  case Nil
  then show ?case by simp
next
  case (Cons x xs)
  have "filter (\<lambda>y. f y = i \<and> P y) xs = []" if "f x = i"
  proof -
    have "f x \<notin> f ` set xs" using Cons.prems by simp
    then have "f y \<noteq> i" if "y \<in> set xs" for y
      using that \<open>f x = i\<close> by (metis image_eqI)
    then show ?thesis by (auto simp: filter_empty_conv)
  qed
  then show ?case using Cons by auto
qed

lemma getAllExpenses_set: "set (getAllExpenses s) = set (Map_values (expenses s))"
  by (simp add: getAllExpenses_def sortBySubmissionDateDesc_def)

lemma store_inv_lookup:
  assumes "store_inv s" and "e \<in> set (getAllExpenses s)"
  shows "getExpense s (expense_id e) = Some e"
proof -
  obtain k where k: "(k, e) \<in> set (expenses s)"
    using assms(2) by (auto simp: getAllExpenses_set Map_values_def)
  then have "expense_id e = k" using assms(1) by (auto simp: store_inv_def)
  moreover have "map_of (expenses s) k = Some e"
    using k assms(1) by (simp add: store_inv_def)
  ultimately show ?thesis by (simp add: getExpense_def Map_get_def)
qed

lemma store_inv_distinct_ids:
  assumes "store_inv s" shows "distinct (map expense_id (getAllExpenses s))"
proof -
  have "map expense_id (Map_values (expenses s)) = map fst (expenses s)"
    using assms by (auto simp: store_inv_def Map_values_def)
  then have d: "distinct (map expense_id (Map_values (expenses s)))"
    using assms by (simp add: store_inv_def)
  then have "distinct (Map_values (expenses s))" and "inj_on expense_id (set (Map_values (expenses s)))"
    by (simp_all add: distinct_map)
  then show ?thesis
    by (simp add: distinct_map getAllExpenses_def sortBySubmissionDateDesc_def)
qed

lemma sync_skips_synced:
  assumes "store_inv (storage sys)" and "i \<in> synced (storage sys)"
  shows "appends_of (calls (snd (syncExpensesToSheet w sys))) i = appends_of (calls sys) i"
proof -
  have "filter (\<lambda>e. expense_id e = i \<and> \<not> opt_truthy (sheetsRowNumber e))
          (getAllExpenses (storage sys)) = []"
  proof -
    have "opt_truthy (sheetsRowNumber e)"
      if "e \<in> set (getAllExpenses (storage sys))" "expense_id e = i" for e
      using store_inv_lookup [OF assms(1) that(1)] that(2) assms(2) by (auto simp: synced_def)
    then show ?thesis by (auto simp: filter_empty_conv)
  qed
  then show ?thesis
    using syncLoop_count_upper [of w "getAllExpenses (storage sys)" sys i]
      syncLoop_count_lower [of sys i w "getAllExpenses (storage sys)"]
    by (simp add: syncExpensesToSheet_def)
qed

lemma sync_at_most_one:
  assumes "store_inv (storage sys)"
  shows "appends_of (calls (snd (syncExpensesToSheet w sys))) i \<le> appends_of (calls sys) i + 1"
  using syncLoop_count_upper [of w "getAllExpenses (storage sys)" sys i]
    filter_by_key_at_most_one [OF store_inv_distinct_ids [OF assms], of i
      "\<lambda>e. \<not> opt_truthy (sheetsRowNumber e)"]
  by (simp add: syncExpensesToSheet_def)

lemma sync_appended_is_synced:
  assumes "store_inv (storage sys)" and "rows_numbered w"
    and "appends_of (calls sys) i < appends_of (calls (snd (syncExpensesToSheet w sys))) i"
  shows "i \<in> synced (storage (snd (syncExpensesToSheet w sys)))"
proof -
  have "\<forall>e \<in> set (getAllExpenses (storage sys)). getExpense (storage sys) (expense_id e) \<noteq> None"
    using store_inv_lookup [OF assms(1)] by simp
  then show ?thesis
    using syncLoop_appended_is_synced [OF assms(2) _ assms(3) [unfolded syncExpensesToSheet_def]]
    by (simp add: syncExpensesToSheet_def)
qed

lemma sync_store_inv:
  "store_inv (storage sys) \<Longrightarrow> store_inv (storage (snd (syncExpensesToSheet w sys)))"
  by (simp add: syncExpensesToSheet_def syncLoop_store_inv)

text \<open>
  C5 (as the code has it). Every expense that carries a row reference is skipped, in
  the first run and in the second, so the second run appends nothing for the records
  the first one synchronised. A row reference is stored only when the append's
  response gives a positive row number: provided every append that returns does so,
  each expense appended by a run carries a row reference afterwards, and two runs in a
  row append at most one row per expense.
\<close>

theorem sync_twice_appends_once:
  assumes "reachable (storage sys)"
  shows "(\<forall>i \<in> synced (storage sys).
            appends_of (calls (run_sync w sys)) i = appends_of (calls sys) i)
         \<and> (\<forall>i \<in> synced (storage (run_sync w sys)).
            appends_of (calls (run_sync w (run_sync w sys))) i = appends_of (calls (run_sync w sys)) i)
         \<and> (rows_numbered w \<longrightarrow>
              (\<forall>i. (appends_of (calls sys) i < appends_of (calls (run_sync w sys)) i
                       \<longrightarrow> i \<in> synced (storage (run_sync w sys)))
                  \<and> appends_of (calls (run_sync w (run_sync w sys))) i \<le> appends_of (calls sys) i + 1))"
proof -
  have inv: "store_inv (storage sys)"
    by (rule reachable_store_inv [OF assms])
  have inv1: "store_inv (storage (run_sync w sys))"
    unfolding run_sync_def by (rule sync_store_inv [OF inv])
  have skip: "appends_of (calls (run_sync w sys)) i = appends_of (calls sys) i"
    if "i \<in> synced (storage sys)" for i
    unfolding run_sync_def by (rule sync_skips_synced [OF inv that])
  have skip1: "appends_of (calls (run_sync w (run_sync w sys))) i = appends_of (calls (run_sync w sys)) i"
    if "i \<in> synced (storage (run_sync w sys))" for i
    using sync_skips_synced [OF inv1 [unfolded run_sync_def], of i w] that
    by (simp add: run_sync_def)
  have once: "(appends_of (calls sys) i < appends_of (calls (run_sync w sys)) i
                 \<longrightarrow> i \<in> synced (storage (run_sync w sys)))
              \<and> appends_of (calls (run_sync w (run_sync w sys))) i \<le> appends_of (calls sys) i + 1"
    if rn: "rows_numbered w" for i
  proof -
    have a: "i \<in> synced (storage (run_sync w sys))"
      if "appends_of (calls sys) i < appends_of (calls (run_sync w sys)) i"
      using sync_appended_is_synced [OF inv rn, of i] that by (simp add: run_sync_def)
    have first: "appends_of (calls (run_sync w sys)) i \<le> appends_of (calls sys) i + 1"
      unfolding run_sync_def by (rule sync_at_most_one [OF inv])
    have second: "appends_of (calls (run_sync w (run_sync w sys))) i
                    \<le> appends_of (calls (run_sync w sys)) i + 1"
      using sync_at_most_one [OF inv1 [unfolded run_sync_def], of w i] by (simp add: run_sync_def)
    have low: "appends_of (calls sys) i \<le> appends_of (calls (run_sync w sys)) i"
      unfolding run_sync_def syncExpensesToSheet_def by (rule syncLoop_count_lower)
    have "appends_of (calls (run_sync w (run_sync w sys))) i \<le> appends_of (calls sys) i + 1"
    proof (cases "appends_of (calls sys) i < appends_of (calls (run_sync w sys)) i")
      case True
      then show ?thesis using skip1 [OF a [OF True]] first by simp
    next
      case False
      then have "appends_of (calls (run_sync w sys)) i = appends_of (calls sys) i"
        using low by simp
      then show ?thesis using second by simp
    qed
    then show ?thesis using a by blast
  qed
  show ?thesis using skip skip1 once by blast
qed

lemma rows_numbered_fixed_row: "rows_numbered world_fixed_row"
proof -
  have "js_positive (rowNumberOf (Some ''Expenses!A7:O7''))"
    by code_simp
  then show ?thesis
    by (auto simp: rows_numbered_def world_fixed_row_def)
qed

lemma reachable_partly: "reachable (storage sys_partly)"
  by (simp add: sys_partly_def sys_default_def reachable_default reach_updateExpense)

lemma partly_facts:
  "getExpense (storage sys_partly) 1 = Some (the (getExpense (storage sys_partly) 1))"
  "opt_truthy (sheetsRowNumber (the (getExpense (storage sys_partly) 1)))"
  "appends_of (calls sys_partly) 2 = 0"
  "appends_of (calls (run_sync world_fixed_row sys_partly)) 2 = 1"
  by code_simp+

theorem sync_twice_appends_once_witness:
  "reachable (storage sys_partly)
   \<and> 1 \<in> synced (storage sys_partly)
   \<and> appends_of (calls (run_sync world_fixed_row sys_partly)) 1 = appends_of (calls sys_partly) 1
   \<and> rows_numbered world_fixed_row
   \<and> appends_of (calls sys_partly) 2 < appends_of (calls (run_sync world_fixed_row sys_partly)) 2
   \<and> 2 \<in> synced (storage (run_sync world_fixed_row sys_partly))
   \<and> appends_of (calls (run_sync world_fixed_row (run_sync world_fixed_row sys_partly))) 2
       = appends_of (calls (run_sync world_fixed_row sys_partly)) 2
   \<and> appends_of (calls (run_sync world_fixed_row (run_sync world_fixed_row sys_partly))) 2
       \<le> appends_of (calls sys_partly) 2 + 1"
proof -
  have s: "1 \<in> synced (storage sys_partly)"
    using partly_facts(1,2) by (auto simp: synced_def)
  have lt: "appends_of (calls sys_partly) 2 < appends_of (calls (run_sync world_fixed_row sys_partly)) 2"
    by (simp add: partly_facts)
  show ?thesis
    using sync_twice_appends_once [OF reachable_partly, of world_fixed_row]
      reachable_partly s lt rows_numbered_fixed_row
    by blast
qed

text \<open>
  C5 as stated fails: the sheet stores the row and its response carries no range.
  The run ends without an error and records no row reference, and the next run appends
  expense 1 again: two rows for one expense.
\<close>

theorem sync_twice_counterexample:
  "appends_of (calls sys_default) 1 = 0
   \<and> fst (syncExpensesToSheet world_no_range sys_default) = Inr ()
   \<and> appends_of (calls (run_sync world_no_range sys_default)) 1 = 1
   \<and> appends_of (calls (run_sync world_no_range (run_sync world_no_range sys_default))) 1 = 2"
  by code_simp

section \<open>The mileage amount\<close>

lemma fl_zero: "fl 0 = Num 0"
  by (simp add: fl_def)

lemma toFixed2_zero: "toFixed2 (Num 0) = ''0.00''"
  by code_simp

lemma calculateAmount_zero: "calculateAmount (Num 0) (Num r) = ''0.00''"
  by (simp add: calculateAmount_def fl_zero toFixed2_zero)

lemma toFixed_n_nearest:
  "\<bar>of_int (toFixed_n a) - 100 * a\<bar> \<le> \<bar>of_int k - 100 * a\<bar>"
proof -
  let ?n = "toFixed_n a"
  have lo: "of_int ?n \<le> a * 100 + 1 / 2" and hi: "a * 100 + 1 / 2 < of_int ?n + 1"
    unfolding toFixed_n_def by linarith+
  show ?thesis
  proof (cases "k \<le> ?n")
    case True
    then consider "k = ?n" | "k \<le> ?n - 1" by linarith
    then show ?thesis
    proof cases
      case 1
      then show ?thesis by simp
    next
      case 2
      then have "(of_int k :: rat) \<le> of_int ?n - 1"
        by (metis of_int_1 of_int_diff of_int_le_iff)
      then show ?thesis using lo hi by linarith
    qed
  next
    case False
    then have "?n + 1 \<le> k" by linarith
    then have "(of_int ?n :: rat) + 1 \<le> of_int k"
      by (metis of_int_1 of_int_add of_int_le_iff)
    then show ?thesis using lo hi by linarith
  qed
qed

lemma toFixed_n_tie_larger:
  assumes "\<bar>of_int k - 100 * a\<bar> = \<bar>of_int (toFixed_n a) - 100 * a\<bar>"
  shows "k \<le> toFixed_n a"
proof (rule ccontr)
  let ?n = "toFixed_n a"
  assume "\<not> k \<le> ?n"
  then have "?n + 1 \<le> k" by linarith
  then have k: "(of_int ?n :: rat) + 1 \<le> of_int k"
    by (metis of_int_1 of_int_add of_int_le_iff)
  have lo: "of_int ?n \<le> a * 100 + 1 / 2" and hi: "a * 100 + 1 / 2 < of_int ?n + 1"
    unfolding toFixed_n_def by linarith+
  show False using assms k lo hi by linarith
qed

lemma calculateAmount_finite:
  assumes "js_times (Num d) (Num r) = Num p" and "\<bar>p\<bar> < 10 ^ 21"
  shows "calculateAmount (Num d) (Num r) = (if p < 0 then ''-'' else []) @ fixed2 (toFixed_n \<bar>p\<bar>)"
  using assms by (simp add: calculateAmount_def toFixed2_def Let_def)

lemma parse_samples:
  "parseFloat ''0'' = Num 0"
  "parseFloat ''0.68'' = fl (68 / 100)"
  "numberToString (parseFloat ''0.00'') = ''0''"
  by code_simp+

lemma calculatedAmount_mileage:
  "body_mileageDistance body = Some (c # cs) \<Longrightarrow> body_mileageRate body = Some (d # ds) \<Longrightarrow>
   calculatedAmount body = Some (calculateAmount (parseFloat (c # cs)) (parseFloat (d # ds)))"
  by (simp add: calculatedAmount_def)

lemma calculatedAmount_no_rate:
  "body_mileageRate body = None \<Longrightarrow> calculatedAmount body = body_amount body"
  by (simp add: calculatedAmount_def split: option.splits list.splits)

lemma pow2_powi: "pow2 e = 2 powi e"
  by (simp add: pow2_def power_int_def inverse_eq_divide power_divide)

lemma ilog2_upper:
  assumes "0 < q"
  shows "q < pow2 (ilog2 q + 1)"
proof -
  obtain a b where ab: "quotient_of q = (a, b)" by (cases "quotient_of q")
  have b: "0 < b" using quotient_of_denom_pos [OF ab] .
  have q: "q = of_int a / of_int b" using quotient_of_div [OF ab] .
  have a: "0 < a" using assms b unfolding q by (simp add: zero_less_divide_iff)
  let ?k = "bitlen a - bitlen b"
  show ?thesis
  proof (cases "pow2 ?k \<le> q")
    case False
    then show ?thesis by (simp add: ilog2_def ab)
  next
    case True
    have la: "0 < bitlen a"
    proof (rule ccontr)
      assume "\<not> 0 < bitlen a"
      then have "nat (bitlen a) = 0" by simp
      then show False using bitlen_bounds [OF a] a by simp
    qed
    have lb: "0 < bitlen b"
    proof (rule ccontr)
      assume "\<not> 0 < bitlen b"
      then have "nat (bitlen b) = 0" by simp
      then show False using bitlen_bounds [OF b] b by simp
    qed
    have ua: "(of_int a :: rat) < 2 powi bitlen a"
    proof -
      have "a < 2 ^ nat (bitlen a)" using bitlen_bounds [OF a] by simp
      then have "(of_int a :: rat) < of_int (2 ^ nat (bitlen a))" by (simp only: of_int_less_iff)
      then show ?thesis using la by (simp add: power_int_def)
    qed
    have ub: "2 powi (bitlen b - 1) \<le> (of_int b :: rat)"
    proof -
      have "2 ^ nat (bitlen b - 1) \<le> b" using bitlen_bounds [OF b] by simp
      then have "(of_int (2 ^ nat (bitlen b - 1)) :: rat) \<le> of_int b" by (simp only: of_int_le_iff)
      then show ?thesis using lb by (simp add: power_int_def)
    qed
    have "q < 2 powi bitlen a / 2 powi (bitlen b - 1)"
      unfolding q using ua ub b
      by (intro frac_less) (simp_all add: a less_imp_le)
    also have "\<dots> = 2 powi (?k + 1)"
      by (simp add: power_int_diff [symmetric] algebra_simps)
    finally show ?thesis using True by (simp add: ilog2_def ab pow2_powi)
  qed
qed

lemma fl_overflow:
  assumes "2 ^ 1024 \<le> \<bar>q\<bar>"
  shows "fl q = (if q < 0 then NegInf else PosInf)"
proof -
  have "(0::rat) < 2 ^ 1024" by (rule zero_less_power) simp
  then have pos: "0 < \<bar>q\<bar>" using assms by (rule less_le_trans)
  have "2 powi 1024 \<le> \<bar>q\<bar>" using assms by (simp add: power_int_def)
  also have "\<bar>q\<bar> < 2 powi (ilog2 \<bar>q\<bar> + 1)" using ilog2_upper [OF pos] by (simp add: pow2_powi)
  finally have lt: "(2::rat) powi 1024 < 2 powi (ilog2 \<bar>q\<bar> + 1)" .
  have "(1024 :: int) < ilog2 \<bar>q\<bar> + 1"
  proof (rule ccontr)
    assume "\<not> 1024 < ilog2 \<bar>q\<bar> + 1"
    then have "ilog2 \<bar>q\<bar> + 1 \<le> 1024" by simp
    then have "(2::rat) powi (ilog2 \<bar>q\<bar> + 1) \<le> 2 powi 1024"
      by (rule power_int_increasing) simp
    then show False using lt by simp
  qed
  then have "1023 < max (ilog2 \<bar>q\<bar>) (- 1022)" by simp
  moreover have "q \<noteq> 0" using pos by simp
  ultimately show ?thesis
    unfolding fl_def Let_def by (simp only: if_False if_True simp_thms)
qed

lemma fl_not_NaN: "fl q \<noteq> NaN"
  by (simp add: fl_def Let_def)

lemma overflow_samples:
  "js_times (Num (2 ^ 600)) (Num (2 ^ 600)) = PosInf"
  "js_times (Num (- (2 ^ 600))) (Num (2 ^ 600)) = NegInf"
proof -
  have "(2::rat) ^ 1024 \<le> 2 ^ 600 * 2 ^ 600"
    by (simp add: power_add [symmetric])
  then show "js_times (Num (2 ^ 600)) (Num (2 ^ 600)) = PosInf"
    "js_times (Num (- (2 ^ 600))) (Num (2 ^ 600)) = NegInf"
    using fl_overflow [of "2 ^ 600 * 2 ^ 600"] fl_overflow [of "- (2 ^ 600) * 2 ^ 600"]
    by simp_all
qed
lemma receiptUrlOf_other_storage:
  "receiptUrlOf w body (sys\<lparr>storage := st\<rparr>) =
     (fst (receiptUrlOf w body sys), (snd (receiptUrlOf w body sys))\<lparr>storage := st\<rparr>)"
  by (simp add: receiptUrlOf_def uploadReceipt_def perform_eq
           split: option.splits list.splits outcome.splits)

lemma setSetting_keeps:
  "users (snd (setSetting t st s)) = users s"
  "expenses (snd (setSetting t st s)) = expenses s"
  "currentExpenseId (snd (setSetting t st s)) = currentExpenseId s"
  by (simp_all add: setSetting_def Let_def split: option.splits)

lemma createExpense_fst_cong:
  "currentExpenseId s' = currentExpenseId s \<Longrightarrow>
   fst (createExpense now ie s') = fst (createExpense now ie s)"
  by (simp add: createExpense_def Let_def)

lemma post_expenses_ignores_settings:
  "fst (post_expenses w now uid body (sys\<lparr>storage := snd (setSetting t st (storage sys))\<rparr>))
     = fst (post_expenses w now uid body sys)"
proof -
  let ?s' = "snd (setSetting t st (storage sys))"
  obtain r sys0 where ru: "receiptUrlOf w body sys = (r, sys0)"
    by (cases "receiptUrlOf w body sys")
  have ru': "receiptUrlOf w body (sys\<lparr>storage := ?s'\<rparr>) = (r, sys0\<lparr>storage := ?s'\<rparr>)"
    using ru by (simp add: receiptUrlOf_other_storage)
  have st: "storage sys0 = storage sys"
    using receiptUrlOf_storage [of w body sys] ru by simp
  have u: "getUser ?s' uid = getUser (storage sys) uid"
    by (simp add: getUser_def setSetting_keeps)
  have c: "fst (createExpense now ie ?s') = fst (createExpense now ie (storage sys0))" for ie
    by (rule createExpense_fst_cong) (simp add: setSetting_keeps st)
  show ?thesis
    by (simp add: post_expenses_def Let_def ru ru' u c
             split: option.splits sum.splits error.splits)
qed

lemma parse_amount:
  "insertExpenseSchema_parse body a user url = Inr ie \<Longrightarrow>
   \<exists>t. a = Some t \<and> ie_amount ie = AmountNumber (parseFloat t)"
  by (auto simp: insertExpenseSchema_parse_def split: option.splits if_splits)

lemma post_expenses_amount:
  assumes "response_expense (fst (post_expenses w now uid body sys)) = Some e"
  shows "\<exists>a. calculatedAmount body = Some a \<and> amount e = numberToString (parseFloat a)"
proof -
  obtain r sys0 where ru: "receiptUrlOf w body sys = (r, sys0)"
    by (cases "receiptUrlOf w body sys")
  from assms ru obtain user url ie where
      p: "insertExpenseSchema_parse body (calculatedAmount body) user url = Inr ie"
      and e: "e = fst (createExpense now ie (storage sys0))"
    by (auto simp: post_expenses_def Let_def split: option.splits sum.splits error.splits)
  obtain a where "calculatedAmount body = Some a" "ie_amount ie = AmountNumber (parseFloat a)"
    using parse_amount [OF p] by blast
  then show ?thesis
    using e by (simp add: createExpense_def Let_def amountToString_def)
qed

text \<open>
  C8 (as the code has it). \<^verbatim>\<open>GET /api/mileage-rate\<close> reads the rate from the setting
  \<^verbatim>\<open>mileage_rate\<close> at call time and answers 0.68 when the setting is unset. The amount
  of a mileage submission is derived in \<^verbatim>\<open>POST /api/expenses\<close> from the distance and
  the rate of the request body; without a rate in the body the amount is the body's
  own amount. The settings have no part in it: the answer of the route is the same
  whatever setting is written before, and the stored amount is the text of the parsed
  calculated amount.
\<close>

theorem mileage_rate_endpoint_reads_setting_post_uses_body_rate:
  "get_mileage_rate s =
     JsonRate 200 (case getSetting s ''mileage_rate'' of
                     Some rateSetting \<Rightarrow> parseFloat (setting_value rateSetting)
                   | None \<Rightarrow> parseFloat ''0.68'')
   \<and> (body_mileageDistance body = Some (c # cs) \<and> body_mileageRate body = Some (d # ds)
        \<longrightarrow> calculatedAmount body = Some (calculateAmount (parseFloat (c # cs)) (parseFloat (d # ds))))
   \<and> (body_mileageRate body2 = None \<longrightarrow> calculatedAmount body2 = body_amount body2)
   \<and> fst (post_expenses w now uid body3 (sys\<lparr>storage := snd (setSetting t st (storage sys))\<rparr>))
       = fst (post_expenses w now uid body3 sys)
   \<and> (response_expense (fst (post_expenses w now uid body3 sys)) = Some e
        \<longrightarrow> (\<exists>a. calculatedAmount body3 = Some a \<and> amount e = numberToString (parseFloat a)))"
  using calculatedAmount_mileage [of body c cs d ds] calculatedAmount_no_rate [of body2]
    post_expenses_amount [of w now uid body3 sys e]
  by (simp add: get_mileage_rate_def parse_samples post_expenses_ignores_settings
           split: option.splits)

lemma rate_samples:
  "getUser (storage sys_rate) 3 = Some user_sarah"
  "receiptUrlOf world_ok (body_mileage ''10'' ''5'') sys_rate = (Inr [], sys_rate)"
  "insertExpenseSchema_parse (body_mileage ''10'' ''5'') (calculatedAmount (body_mileage ''10'' ''5''))
     user_sarah [] = Inr ie_mileage"
  "amount e_mileage = ''50''"
  "calculatedAmount (body_mileage ''10'' ''5'') = Some ''50.00''"
  "get_mileage_rate (storage sys_rate) = JsonRate 200 (parseFloat ''0.68'')"
  "calculateAmount (parseFloat ''10'') (parseFloat ''0.68'') = ''6.80''"
  by code_simp+

lemma post_mileage_sample:
  "fst (post_expenses world_ok 1750700008000 3 (body_mileage ''10'' ''5'') sys_rate)
     = JsonExpense 201 e_mileage"
  unfolding e_mileage_def
  using post_expenses_creates [OF rate_samples(1-3), of 1750700008000] by simp

theorem mileage_rate_endpoint_reads_setting_post_uses_body_rate_witness:
  "body_mileageDistance (body_mileage ''10'' ''5'') = Some ''10''
   \<and> body_mileageRate (body_mileage ''10'' ''5'') = Some ''5''
   \<and> calculatedAmount (body_mileage ''10'' ''5'')
       = Some (calculateAmount (parseFloat ''10'') (parseFloat ''5''))
   \<and> body_mileageRate (body_manual ''12.00'') = None
   \<and> calculatedAmount (body_manual ''12.00'') = Some ''12.00''
   \<and> response_expense (fst (post_expenses world_ok 1750700008000 3 (body_mileage ''10'' ''5'') sys_rate))
       = Some e_mileage
   \<and> (\<exists>a. calculatedAmount (body_mileage ''10'' ''5'') = Some a
          \<and> amount e_mileage = numberToString (parseFloat a))"
proof -
  have b: "body_mileageDistance (body_mileage ''10'' ''5'') = Some ''10''"
    "body_mileageRate (body_mileage ''10'' ''5'') = Some ''5''"
    "body_mileageRate (body_manual ''12.00'') = None"
    "body_amount (body_manual ''12.00'') = Some ''12.00''"
    by (simp_all add: body_mileage_def body_manual_def)
  have r: "response_expense (fst (post_expenses world_ok 1750700008000 3
             (body_mileage ''10'' ''5'') sys_rate)) = Some e_mileage"
    by (simp add: post_mileage_sample)
  show ?thesis
    using mileage_rate_endpoint_reads_setting_post_uses_body_rate
            [where s = "storage sys_rate" and body = "body_mileage ''10'' ''5''"
               and c = "CHR ''1''" and cs = "''0''" and d = "CHR ''5''" and ds = "[]"
               and ?body2.0 = "body_manual ''12.00''" and w = world_ok and now = 1750700008000
               and uid = 3 and ?body3.0 = "body_mileage ''10'' ''5''" and sys = sys_rate
               and t = 0 and st = "\<lparr>is_key = ''mileage_rate'', is_value = ''0.68''\<rparr>"
               and e = e_mileage]
          b r
    by metis
qed

text \<open>
  C8 as stated fails: with the setting \<^verbatim>\<open>mileage_rate\<close> at 0.68, a submission of 10
  miles that carries the rate 5 in its body is answered with 201 and the amount 50; the
  rate of the setting would have given 6.80.
\<close>

theorem caller_supplied_rate_counterexample:
  "get_mileage_rate (storage sys_rate) = JsonRate 200 (parseFloat ''0.68'')
   \<and> calculateAmount (parseFloat ''10'') (parseFloat ''0.68'') = ''6.80''
   \<and> calculatedAmount (body_mileage ''10'' ''5'') = Some ''50.00''
   \<and> fst (post_expenses world_ok 1750700008000 3 (body_mileage ''10'' ''5'') sys_rate)
       = JsonExpense 201 e_mileage
   \<and> amount e_mileage = ''50''"
  by (simp add: rate_samples post_mileage_sample)

lemma zero_samples:
  "parseFloat ''0.00'' = Num 0"
  "numeric_10_2 (Num 0) = Some ''0.00''"
  by code_simp+

lemma zero_distance_accepted:
  assumes "getUser (storage sys) uid = Some user"
    and "receiptUrlOf w body sys = (Inr url, sys0)"
    and "body_mileageDistance body = Some ''0''"
    and "body_mileageRate body = Some (c # cs)"
    and "parseFloat (c # cs) = Num r"
    and "body_description body = Some ds"
    and "body_category body = Some cat"
    and "body_expenseDate body = Some dt"
    and "body_sheetsRowNumber body = None"
  shows "calculatedAmount body = Some ''0.00''"
    and "response_code (fst (post_expenses w now uid body sys)) = 201"
    and "map_option amount (response_expense (fst (post_expenses w now uid body sys))) = Some ''0''"
proof -
  show a: "calculatedAmount body = Some ''0.00''"
    using calculatedAmount_mileage [OF assms(3) [unfolded String.char.simps] assms(4)] assms(5)
    by (simp add: parse_samples calculateAmount_zero)
  let ?ie = "\<lparr>ie_employeeId = user_id user,
                   ie_employeeName = user_name user,
                   ie_employeeEmail = user_email user,
                   ie_department = user_department user,
                   ie_amount = AmountNumber (parseFloat ''0.00''),
                   ie_description = ds,
                   ie_category = cat,
                   ie_expenseDate = dt,
                   ie_status = body_status body,
                   ie_approvalNote = body_approvalNote body,
                   ie_receiptUrl = Some url,
                   ie_receiptFileName = body_receiptFileName body,
                   ie_emailId = body_emailId body,
                   ie_formSubmissionId = body_formSubmissionId body,
                   ie_sheetsRowNumber = None\<rparr>"
  have p: "insertExpenseSchema_parse body (calculatedAmount body) user url = Inr ?ie"
    using assms(6-9) by (simp add: a insertExpenseSchema_parse_def insertExpenseSchema_issues_def)
  note eq = post_expenses_creates [OF assms(1,2) p, of now]
  show "response_code (fst (post_expenses w now uid body sys)) = 201"
    unfolding eq by simp
  show "map_option amount (response_expense (fst (post_expenses w now uid body sys))) = Some ''0''"
    unfolding eq by (simp add: createExpense_def Let_def amountToString_def parse_samples)
qed

lemma zero_distance_accepted_db:
  assumes "getUser (storage sys) uid = Some user"
    and "receiptUrlOf w body sys = (Inr url, sys0)"
    and "body_mileageDistance body = Some ''0''"
    and "body_mileageRate body = Some (c # cs)"
    and "parseFloat (c # cs) = Num r"
    and "body_description body = Some ds"
    and "body_category body = Some cat"
    and "body_expenseDate body = Some dt"
    and "body_sheetsRowNumber body = None"
    and "dt \<noteq> InvalidDate"
    and "numeric (Num 0) = Some t"
  shows "response_code (fst (post_expenses_db numeric w now uid body sys)) = 201"
    and "map_option amount (response_expense (fst (post_expenses_db numeric w now uid body sys)))
           = Some t"
proof -
  have a: "calculatedAmount body = Some ''0.00''"
    by (rule zero_distance_accepted(1) [OF assms(1-9)])
  let ?ie = "\<lparr>ie_employeeId = user_id user,
                   ie_employeeName = user_name user,
                   ie_employeeEmail = user_email user,
                   ie_department = user_department user,
                   ie_amount = AmountNumber (parseFloat ''0.00''),
                   ie_description = ds,
                   ie_category = cat,
                   ie_expenseDate = dt,
                   ie_status = body_status body,
                   ie_approvalNote = body_approvalNote body,
                   ie_receiptUrl = Some url,
                   ie_receiptFileName = body_receiptFileName body,
                   ie_emailId = body_emailId body,
                   ie_formSubmissionId = body_formSubmissionId body,
                   ie_sheetsRowNumber = None\<rparr>"
  have p: "insertExpenseSchema_parse body (calculatedAmount body) user url = Inr ?ie"
    using assms(6-9) by (simp add: a insertExpenseSchema_parse_def insertExpenseSchema_issues_def)
  obtain e s1 where c: "DatabaseStorage_createExpense numeric now ?ie (storage sys0) = Inr (e, s1)"
    and e: "amount e = t"
    using assms(10,11)
    by (simp add: DatabaseStorage_createExpense_def Let_def amountNumber_def zero_samples)
  note eq = post_expenses_db_creates [OF assms(1,2) p c]
  show "response_code (fst (post_expenses_db numeric w now uid body sys)) = 201"
    unfolding eq by simp
  show "map_option amount (response_expense (fst (post_expenses_db numeric w now uid body sys)))
          = Some t"
    unfolding eq by (simp add: e)
qed

text \<open>
  C9 (as the code has it). For every finite rate r, calculateAmount(0, r) is "0.00",
  and a mileage submission of distance "0" is accepted (201): \<^verbatim>\<open>MemStorage\<close> stores
  it with the amount "0", and \<^verbatim>\<open>DatabaseStorage\<close>, when the date is valid, with the
  text that the numeric column gives back for 0. For finite d and r the amount is
  \<^verbatim>\<open>toFixed(2)\<close> of the JavaScript product of d and r, which is d \<times> r rounded to the
  nearest binary64 number and never NaN:
  \<^item> when the product is a number p below 10^21 in magnitude, the text is the sign of p
    and the integer number n of hundredths nearest to the magnitude of p, the larger n
    on a tie; this rounds the binary64 product, not the decimal d \<times> r;
  \<^item> when the product is a number p of magnitude 10^21 or more, the text is the sign of
    p and the \<^verbatim>\<open>toString\<close> of its magnitude, in exponent notation;
  \<^item> when the product overflows, the text is Infinity or -Infinity.

  Doubling the distance is not claimed to double the amount.
\<close>

theorem mileage_amount_is_toFixed_of_binary64_product:
  "calculateAmount (Num 0) (Num r) = ''0.00''
   \<and> (getUser (storage sys) uid = Some user
        \<and> receiptUrlOf w body sys = (Inr url, sys0)
        \<and> body_mileageDistance body = Some ''0''
        \<and> body_mileageRate body = Some (c # cs)
        \<and> parseFloat (c # cs) = Num r'
        \<and> body_description body = Some ds
        \<and> body_category body = Some cat
        \<and> body_expenseDate body = Some dt
        \<and> body_sheetsRowNumber body = None
      \<longrightarrow> calculatedAmount body = Some ''0.00''
        \<and> response_code (fst (post_expenses w now uid body sys)) = 201
        \<and> map_option amount (response_expense (fst (post_expenses w now uid body sys))) = Some ''0''
        \<and> (dt \<noteq> InvalidDate \<and> numeric (Num 0) = Some t
           \<longrightarrow> response_code (fst (post_expenses_db numeric w now uid body sys)) = 201
             \<and> map_option amount
                  (response_expense (fst (post_expenses_db numeric w now uid body sys))) = Some t))
   \<and> js_times (Num d) (Num r) = fl (d * r)
   \<and> js_times (Num d) (Num r) \<noteq> NaN
   \<and> (js_times (Num d1) (Num r1) = Num p1 \<and> \<bar>p1\<bar> < 10 ^ 21
      \<longrightarrow> calculateAmount (Num d1) (Num r1)
            = (if p1 < 0 then ''-'' else []) @ fixed2 (toFixed_n \<bar>p1\<bar>)
        \<and> (\<forall>k. \<bar>of_int (toFixed_n \<bar>p1\<bar>) - 100 * \<bar>p1\<bar>\<bar> \<le> \<bar>of_int k - 100 * \<bar>p1\<bar>\<bar>)
        \<and> (\<forall>k. \<bar>of_int k - 100 * \<bar>p1\<bar>\<bar> = \<bar>of_int (toFixed_n \<bar>p1\<bar>) - 100 * \<bar>p1\<bar>\<bar>
               \<longrightarrow> k \<le> toFixed_n \<bar>p1\<bar>))
   \<and> (js_times (Num d2) (Num r2) = Num p2 \<and> 10 ^ 21 \<le> \<bar>p2\<bar>
      \<longrightarrow> calculateAmount (Num d2) (Num r2)
            = (if p2 < 0 then ''-'' else []) @ numberToString (Num \<bar>p2\<bar>))
   \<and> (js_times (Num d3) (Num r3) = PosInf \<longrightarrow> calculateAmount (Num d3) (Num r3) = ''Infinity'')
   \<and> (js_times (Num d4) (Num r4) = NegInf \<longrightarrow> calculateAmount (Num d4) (Num r4) = ''-Infinity'')"
proof (intro conjI impI allI; (elim conjE)?)
  show "calculateAmount (Num 0) (Num r) = ''0.00''"
    by (rule calculateAmount_zero)
  show "js_times (Num d) (Num r) = fl (d * r)"
    by simp
  show "js_times (Num d) (Num r) \<noteq> NaN"
    by (simp add: fl_not_NaN)
next
  assume h: "getUser (storage sys) uid = Some user"
    "receiptUrlOf w body sys = (Inr url, sys0)"
    "body_mileageDistance body = Some ''0''"
    "body_mileageRate body = Some (c # cs)"
    "parseFloat (c # cs) = Num r'"
    "body_description body = Some ds"
    "body_category body = Some cat"
    "body_expenseDate body = Some dt"
    "body_sheetsRowNumber body = None"
  show "calculatedAmount body = Some ''0.00''"
    by (rule zero_distance_accepted(1) [OF h])
  show "response_code (fst (post_expenses w now uid body sys)) = 201"
    by (rule zero_distance_accepted(2) [OF h])
  show "map_option amount (response_expense (fst (post_expenses w now uid body sys))) = Some ''0''"
    by (rule zero_distance_accepted(3) [OF h])
  assume g: "dt \<noteq> InvalidDate" "numeric (Num 0) = Some t"
  show "response_code (fst (post_expenses_db numeric w now uid body sys)) = 201"
    by (rule zero_distance_accepted_db(1) [where numeric = numeric, OF h g])
  show "map_option amount (response_expense (fst (post_expenses_db numeric w now uid body sys)))
          = Some t"
    by (rule zero_distance_accepted_db(2) [where numeric = numeric, OF h g])
next
  assume h: "js_times (Num d1) (Num r1) = Num p1" "\<bar>p1\<bar> < 10 ^ 21"
  show "calculateAmount (Num d1) (Num r1)
          = (if p1 < 0 then ''-'' else []) @ fixed2 (toFixed_n \<bar>p1\<bar>)"
    by (rule calculateAmount_finite [OF h])
  show "\<bar>of_int (toFixed_n \<bar>p1\<bar>) - 100 * \<bar>p1\<bar>\<bar> \<le> \<bar>of_int k - 100 * \<bar>p1\<bar>\<bar>" for k
    by (rule toFixed_n_nearest)
  show "k \<le> toFixed_n \<bar>p1\<bar>"
    if "\<bar>of_int k - 100 * \<bar>p1\<bar>\<bar> = \<bar>of_int (toFixed_n \<bar>p1\<bar>) - 100 * \<bar>p1\<bar>\<bar>" for k
    by (rule toFixed_n_tie_larger [OF that])
next
  assume "js_times (Num d2) (Num r2) = Num p2" "10 ^ 21 \<le> \<bar>p2\<bar>"
  then show "calculateAmount (Num d2) (Num r2)
               = (if p2 < 0 then ''-'' else []) @ numberToString (Num \<bar>p2\<bar>)"
    by (simp add: calculateAmount_def toFixed2_def Let_def)
next
  assume "js_times (Num d3) (Num r3) = PosInf"
  then show "calculateAmount (Num d3) (Num r3) = ''Infinity''"
    by (simp add: calculateAmount_def toFixed2_def)
next
  assume "js_times (Num d4) (Num r4) = NegInf"
  then show "calculateAmount (Num d4) (Num r4) = ''-Infinity''"
    by (simp add: calculateAmount_def toFixed2_def)
qed

lemma amount_samples:
  "getUser (storage sys_default) 3 = Some user_sarah"
  "receiptUrlOf world_ok (body_mileage ''0'' ''0.68'') sys_default = (Inr [], sys_default)"
  "parseFloat ''0.68'' = Num (6124895493223875 / 9007199254740992)"
  "js_times (Num (1 / 4)) (Num (1 / 2)) = Num (1 / 8)"
  "fixed2 (toFixed_n (1 / 8)) = ''0.13''"
  "toFixed_n (1 / 8) = 13"
  "js_times (Num 1000000000000000000000) (Num 1) = Num 1000000000000000000000"
  "numberToString (Num 1000000000000000000000) = ''1e+21''"
  by code_simp+

theorem mileage_amount_is_toFixed_of_binary64_product_witness:
  "(getUser (storage sys_default) 3 = Some user_sarah
    \<and> receiptUrlOf world_ok (body_mileage ''0'' ''0.68'') sys_default = (Inr [], sys_default)
    \<and> body_mileageDistance (body_mileage ''0'' ''0.68'') = Some ''0''
    \<and> body_mileageRate (body_mileage ''0'' ''0.68'') = Some ''0.68''
    \<and> parseFloat ''0.68'' = Num (6124895493223875 / 9007199254740992)
    \<and> body_description (body_mileage ''0'' ''0.68'') = Some ''Client visit''
    \<and> body_category (body_mileage ''0'' ''0.68'') = Some ''Mileage''
    \<and> body_expenseDate (body_mileage ''0'' ''0.68'') = Some (Date 1750636800000)
    \<and> body_sheetsRowNumber (body_mileage ''0'' ''0.68'') = None)
   \<and> calculatedAmount (body_mileage ''0'' ''0.68'') = Some ''0.00''
   \<and> response_code (fst (post_expenses world_ok 1750700008000 3 (body_mileage ''0'' ''0.68'')
         sys_default)) = 201
   \<and> map_option amount (response_expense (fst (post_expenses world_ok 1750700008000 3
         (body_mileage ''0'' ''0.68'') sys_default))) = Some ''0''
   \<and> (Date 1750636800000 \<noteq> InvalidDate \<and> numeric_10_2 (Num 0) = Some ''0.00'')
   \<and> response_code (fst (post_expenses_db numeric_10_2 world_ok 1750700008000 3
         (body_mileage ''0'' ''0.68'') sys_default)) = 201
   \<and> map_option amount (response_expense (fst (post_expenses_db numeric_10_2 world_ok
         1750700008000 3 (body_mileage ''0'' ''0.68'') sys_default))) = Some ''0.00''
   \<and> (js_times (Num (1 / 4)) (Num (1 / 2)) = Num (1 / 8) \<and> \<bar>1 / 8 :: rat\<bar> < 10 ^ 21)
   \<and> calculateAmount (Num (1 / 4)) (Num (1 / 2)) = ''0.13''
   \<and> \<bar>of_int (13 :: int) - 100 * \<bar>1 / 8 :: rat\<bar>\<bar> = \<bar>of_int (toFixed_n \<bar>1 / 8\<bar>) - 100 * \<bar>1 / 8 :: rat\<bar>\<bar>
   \<and> (13 :: int) \<le> toFixed_n \<bar>1 / 8\<bar>
   \<and> (js_times (Num 1000000000000000000000) (Num 1) = Num 1000000000000000000000
      \<and> (10 :: rat) ^ 21 \<le> \<bar>1000000000000000000000\<bar>)
   \<and> calculateAmount (Num 1000000000000000000000) (Num 1) = ''1e+21''
   \<and> js_times (Num (2 ^ 600)) (Num (2 ^ 600)) = PosInf
   \<and> calculateAmount (Num (2 ^ 600)) (Num (2 ^ 600)) = ''Infinity''
   \<and> js_times (Num (- (2 ^ 600))) (Num (2 ^ 600)) = NegInf
   \<and> calculateAmount (Num (- (2 ^ 600))) (Num (2 ^ 600)) = ''-Infinity''"
proof -
  have b: "body_mileageDistance (body_mileage ''0'' ''0.68'') = Some ''0''"
    "body_mileageRate (body_mileage ''0'' ''0.68'') = Some ''0.68''"
    "body_description (body_mileage ''0'' ''0.68'') = Some ''Client visit''"
    "body_category (body_mileage ''0'' ''0.68'') = Some ''Mileage''"
    "body_expenseDate (body_mileage ''0'' ''0.68'') = Some (Date 1750636800000)"
    "body_sheetsRowNumber (body_mileage ''0'' ''0.68'') = None"
    by (simp_all add: body_mileage_def)
  have small: "\<bar>1 / 8 :: rat\<bar> < 10 ^ 21" by simp
  have large: "(10 :: rat) ^ 21 \<le> \<bar>1000000000000000000000\<bar>" by simp
  have valid: "Date 1750636800000 \<noteq> InvalidDate" by simp
  note t = mileage_amount_is_toFixed_of_binary64_product
             [where sys = sys_default and uid = 3 and user = user_sarah and w = world_ok
                and body = "body_mileage ''0'' ''0.68''" and url = "[]" and ?sys0.0 = sys_default
                and c = "CHR ''0''" and cs = "''.68''"
                and r' = "6124895493223875 / 9007199254740992"
                and ds = "''Client visit''" and cat = "''Mileage''"
                and dt = "Date 1750636800000" and now = 1750700008000
                and numeric = numeric_10_2 and t = "''0.00''"
                and ?d1.0 = "1 / 4" and ?r1.0 = "1 / 2" and ?p1.0 = "1 / 8"
                and ?d2.0 = 1000000000000000000000 and ?r2.0 = 1
                and ?p2.0 = 1000000000000000000000
                and ?d3.0 = "2 ^ 600" and ?r3.0 = "2 ^ 600"
                and ?d4.0 = "- (2 ^ 600)" and ?r4.0 = "2 ^ 600"]
  have one: "calculatedAmount (body_mileage ''0'' ''0.68'') = Some ''0.00''
     \<and> response_code (fst (post_expenses world_ok 1750700008000 3 (body_mileage ''0'' ''0.68'')
           sys_default)) = 201
     \<and> map_option amount (response_expense (fst (post_expenses world_ok 1750700008000 3
           (body_mileage ''0'' ''0.68'') sys_default))) = Some ''0''
     \<and> response_code (fst (post_expenses_db numeric_10_2 world_ok 1750700008000 3
           (body_mileage ''0'' ''0.68'') sys_default)) = 201
     \<and> map_option amount (response_expense (fst (post_expenses_db numeric_10_2 world_ok
           1750700008000 3 (body_mileage ''0'' ''0.68'') sys_default))) = Some ''0.00''"
    using t amount_samples(1-3) b valid zero_samples(2) by blast
  have two: "calculateAmount (Num (1 / 4)) (Num (1 / 2)) = ''0.13''"
    using t amount_samples(4) small by (simp add: amount_samples(5))
  have three: "(13 :: int) \<le> toFixed_n \<bar>1 / 8\<bar>"
    using t amount_samples(4) small by (simp add: amount_samples(6))
  have four: "calculateAmount (Num 1000000000000000000000) (Num 1) = ''1e+21''"
    using t amount_samples(7) large by (simp add: amount_samples(8))
  have five: "calculateAmount (Num (2 ^ 600)) (Num (2 ^ 600)) = ''Infinity''"
    "calculateAmount (Num (- (2 ^ 600))) (Num (2 ^ 600)) = ''-Infinity''"
    using t overflow_samples by blast+
  have six: "\<bar>of_int (13 :: int) - 100 * \<bar>1 / 8 :: rat\<bar>\<bar>
               = \<bar>of_int (toFixed_n \<bar>1 / 8\<bar>) - 100 * \<bar>1 / 8 :: rat\<bar>\<bar>"
    by (simp add: amount_samples(6))
  show ?thesis
    by (intro conjI one [THEN conjunct1] one [THEN conjunct2, THEN conjunct1]
          one [THEN conjunct2, THEN conjunct2, THEN conjunct1]
          one [THEN conjunct2, THEN conjunct2, THEN conjunct2, THEN conjunct1]
          one [THEN conjunct2, THEN conjunct2, THEN conjunct2, THEN conjunct2]
          two three four five six amount_samples(1-4,7) b small large valid zero_samples(2)
          overflow_samples)
qed

text \<open>
  C9 as stated fails on two of its parts. The rounding is not half-up on d \<times> r: the
  distance 1.005 at the rate 1 gives the amount 1.00, where d \<times> r = 1.005 rounds
  half-up to 1.01; the binary64 number nearest to 1.005 is below it. Doubling the
  distance does not double the amount: at the rate 0.5 a distance of 0.25 gives the
  amount 0.13, and the doubled distance 0.5 gives 0.25, which is not the double 0.26.
\<close>

theorem half_up_and_doubling_counterexample:
  "calculatedAmount (body_mileage ''1.005'' ''1'') = Some ''1.00''
   \<and> fixed2 (toFixed_n (1005 / 1000 * 1)) = ''1.01''
   \<and> calculatedAmount (body_mileage ''0.25'' ''0.5'') = Some ''0.13''
   \<and> calculatedAmount (body_mileage ''0.5'' ''0.5'') = Some ''0.25''
   \<and> parseFloat ''0.5'' = js_times (Num 2) (parseFloat ''0.25'')
   \<and> js_times (Num 2) (parseFloat ''0.13'') = parseFloat ''0.26''
   \<and> parseFloat ''0.26'' \<noteq> parseFloat ''0.25''"
  by code_simp
end
